theory Spec2Isabelle
  imports Main "HOL-Library.Sublist" "HOL-Library.AList"
begin

section \<open>Python strings\<close>

text \<open>
  The script \<^verbatim>\<open>scripts/init-devcontainer.py\<close> works on Python \<^verbatim>\<open>str\<close> values: sequences of
  Unicode code points. A code point is a natural number, a string a list of them. String
  literals of the source are written as Isabelle literals and converted by \<open>lit\<close>.
\<close>

type_synonym pychar = nat
type_synonym pystr = "pychar list"

definition lit :: "string \<Rightarrow> pystr" where
  "lit s = map of_char s"

text \<open>
  \<^verbatim>\<open>str.isspace\<close> of one character, as CPython's \<^verbatim>\<open>Py_UNICODE_ISSPACE\<close> decides it: the
  characters \<^verbatim>\<open>str.strip()\<close> removes when it is called without an argument.
\<close>

definition py_isspace :: "pychar \<Rightarrow> bool" where
  "py_isspace c \<longleftrightarrow>
     (9 \<le> c \<and> c \<le> 13) \<or> (28 \<le> c \<and> c \<le> 32) \<or> c = 133 \<or> c = 160 \<or> c = 5760 \<or>
     (8192 \<le> c \<and> c \<le> 8202) \<or> c = 8232 \<or> c = 8233 \<or> c = 8239 \<or> c = 8287 \<or> c = 12288"

definition py_strip :: "pystr \<Rightarrow> pystr" where
  "py_strip s = rev (dropWhile py_isspace (rev (dropWhile py_isspace s)))"

definition py_startswith :: "pystr \<Rightarrow> pystr \<Rightarrow> bool" where
  "py_startswith s p = prefix p s"

definition py_endswith :: "pystr \<Rightarrow> pystr \<Rightarrow> bool" where
  "py_endswith s p = suffix p s"

text \<open>The slice \<^verbatim>\<open>s[1:-1]\<close>: all but the first and the last character; empty when \<open>s\<close>
  has fewer than two characters.\<close>

definition py_inner :: "pystr \<Rightarrow> pystr" where
  "py_inner s = butlast (tl s)"

text \<open>\<^verbatim>\<open>sub in s\<close> for two strings: \<open>sub\<close> occurs in \<open>s\<close> as a contiguous run.\<close>

definition py_contains :: "pystr \<Rightarrow> pystr \<Rightarrow> bool" where
  "py_contains s sub = sublist sub s"

text \<open>
  \<^verbatim>\<open>s.split(sep, 1)\<close> for a one-character separator that occurs in \<open>s\<close>: the text before
  the first separator and the text after it. The source calls it only under
  \<^verbatim>\<open>if '=' in line\<close>.
\<close>

definition py_split1 :: "pychar \<Rightarrow> pystr \<Rightarrow> pystr \<times> pystr" where
  "py_split1 sep s = (takeWhile (\<lambda>c. c \<noteq> sep) s, tl (dropWhile (\<lambda>c. c \<noteq> sep) s))"

text \<open>
  \<^verbatim>\<open>s.replace(old, new)\<close>: a scan from the left that replaces each occurrence of \<open>old\<close> it
  meets and continues behind it, so that the occurrences replaced do not overlap. With an
  empty \<open>old\<close> Python puts \<open>new\<close> before every character and at the end.
\<close>

fun replace_scan :: "pystr \<Rightarrow> pystr \<Rightarrow> pystr \<Rightarrow> pystr" where
  "replace_scan old new [] = []"
| "replace_scan old new (c # cs) =
     (if old \<noteq> [] \<and> prefix old (c # cs)
      then new @ replace_scan old new (drop (length old - 1) cs)
      else c # replace_scan old new cs)"

definition py_replace :: "pystr \<Rightarrow> pystr \<Rightarrow> pystr \<Rightarrow> pystr" where
  "py_replace s old new =
     (if old = [] then new @ concat (map (\<lambda>c. c # new) s) else replace_scan old new s)"

text \<open>
  \<^verbatim>\<open>str.isalnum\<close>. For an ASCII character CPython answers from a fixed table: the digits and
  the letters. For any other code point it consults the Unicode character database, which
  is no part of this repository: \<open>ucd\<close> stands for that table. The empty string is not
  alphanumeric.
\<close>

definition isalnum_char :: "(pychar \<Rightarrow> bool) \<Rightarrow> pychar \<Rightarrow> bool" where
  "isalnum_char ucd c \<longleftrightarrow>
     (if c < 128 then (48 \<le> c \<and> c \<le> 57) \<or> (65 \<le> c \<and> c \<le> 90) \<or> (97 \<le> c \<and> c \<le> 122)
      else ucd c)"

definition py_isalnum :: "(pychar \<Rightarrow> bool) \<Rightarrow> pystr \<Rightarrow> bool" where
  "py_isalnum ucd s \<longleftrightarrow> s \<noteq> [] \<and> list_all (isalnum_char ucd) s"

section \<open>Dictionaries\<close>

text \<open>
  A Python \<^verbatim>\<open>dict\<close> keeps its keys in insertion order, and an assignment to a key that is
  present replaces the value in place: an association list with distinct keys, updated by
  \<open>AList.update\<close>.
\<close>

type_synonym pydict = "(pystr \<times> pystr) list"

definition dict_set :: "pydict \<Rightarrow> pystr \<Rightarrow> pystr \<Rightarrow> pydict" where
  "dict_set d k v = AList.update k v d"

definition dict_get :: "pydict \<Rightarrow> pystr \<Rightarrow> pystr \<Rightarrow> pystr" where
  "dict_get d k dflt = (case map_of d k of None \<Rightarrow> dflt | Some v \<Rightarrow> v)"

section \<open>Files, the process environment and the terminal\<close>

text \<open>
  The script reads and writes three files, prints log lines and sets variables of its own
  process environment. The state it works on:
  \<^item> \<open>files\<close>: the text of every file that exists;
  \<^item> \<open>faulty\<close>: the paths on which \<^verbatim>\<open>open\<close>, a read or a write raises (no permission,
    a directory, bytes that are not UTF-8, a parent directory that cannot be made);
  \<^item> \<open>environ\<close>: \<^verbatim>\<open>os.environ\<close>;
  \<^item> \<open>out\<close>: the lines printed by \<^verbatim>\<open>log\<close>, oldest first, each with its colour. The
    texts are the constructors of \<open>message\<close>; what an f-string interpolates is an argument
    (paths and exception texts are left out).
  Printing is taken to succeed, and a write to put the text into the file as it is (the
  line separator of the host is the line feed).
\<close>

type_synonym path = string

datatype color = GREEN | YELLOW | BLUE | RED | NC

datatype message =
    EnvNotFound | CreatingDefaultEnv | InvalidLine nat pystr | ErrorReadingEnv
  | CreatedDefaultEnv | ErrorCreatingDefaultEnv
  | InvalidWorkspaceName pystr | WorkspaceNameRule | TemplateNotFound | EnsureTemplateExists
  | InvalidJson | Generated | ShowWorkspaceName pystr | ShowDiamondName pystr
  | ErrorGenerating
  | MissingField pystr | ErrorVerifying
  | Rule | Title | Blank | LoadingEnv | Loaded nat | Generating | Verifying
  | ConfigValid | ConfigMayHaveIssues | Complete | WillStart | UnexpectedError

record world =
  files :: "path \<Rightarrow> pystr option"
  faulty :: "path \<Rightarrow> bool"
  environ :: "pystr \<Rightarrow> pystr option"
  out :: "(color \<times> message) list"

text \<open>How a call ends when it does not return: \<^verbatim>\<open>sys.exit(n)\<close>, or an exception that no
  handler of the function catches.\<close>

datatype abort = SysExit nat | Uncaught

type_synonym 'a result = "(abort \<times> world) + ('a \<times> world)"

definition log :: "color \<Rightarrow> message \<Rightarrow> world \<Rightarrow> world" where
  "log c m w = w\<lparr>out := out w @ [(c, m)]\<rparr>"

definition path_exists :: "world \<Rightarrow> path \<Rightarrow> bool" where
  "path_exists w p \<longleftrightarrow> files w p \<noteq> None"

text \<open>
  A file opened for reading in text mode translates line ends: a carriage return (13)
  followed by a line feed (10), and a lone carriage return, both arrive as one line feed.
\<close>

fun universal_newlines :: "pystr \<Rightarrow> pystr" where
  "universal_newlines [] = []"
| "universal_newlines [c] = [if c = 13 then 10 else c]"
| "universal_newlines (c # d # cs) =
     (if c = 13 \<and> d = 10 then 10 # universal_newlines cs
      else if c = 13 then 10 # universal_newlines (d # cs)
      else c # universal_newlines (d # cs))"

definition read_text :: "world \<Rightarrow> path \<Rightarrow> pystr option" where
  "read_text w p = (if faulty w p then None else map_option universal_newlines (files w p))"

definition write_text :: "world \<Rightarrow> path \<Rightarrow> pystr \<Rightarrow> world option" where
  "write_text w p s = (if faulty w p then None else Some (w\<lparr>files := (files w)(p \<mapsto> s)\<rparr>))"

text \<open>Iterating over an open text file yields its lines, each with its line feed; the last
  line may lack one.\<close>

fun lines_from :: "pystr \<Rightarrow> pystr \<Rightarrow> pystr list" where
  "lines_from cur [] = (if cur = [] then [] else [cur])"
| "lines_from cur (c # cs) =
     (if c = 10 then (cur @ [c]) # lines_from [] cs else lines_from (cur @ [c]) cs)"

definition py_lines :: "pystr \<Rightarrow> pystr list" where
  "py_lines s = lines_from [] s"

text \<open>
  \<^verbatim>\<open>os.environ[key] = value\<close> raises \<^verbatim>\<open>ValueError\<close> for a name that is empty or holds
  \<^verbatim>\<open>=\<close> (61), and for a name or a value that holds the character 0.
\<close>

definition environ_set :: "world \<Rightarrow> pystr \<Rightarrow> pystr \<Rightarrow> world option" where
  "environ_set w k v =
     (if k = [] \<or> 61 \<in> set k \<or> 0 \<in> set k \<or> 0 \<in> set v then None
      else Some (w\<lparr>environ := (environ w)(k \<mapsto> v)\<rparr>))"

section \<open>Loading the environment file\<close>

definition default_content :: pystr where
  "default_content = concat (map (\<lambda>l. lit l @ [10])
     [''# Diamonds DevContainer Configuration'',
      ''# Generated automatically - customize as needed'',
      [],
      ''# Project Identity'',
      ''WORKSPACE_NAME=diamonds_project'',
      ''DIAMOND_NAME=ExampleDiamond'',
      [],
      ''# Vault Configuration'',
      ''VAULT_COMMAND=server -dev -dev-root-token-id=root -dev-listen-address=0.0.0.0:8200'',
      ''VAULT_PORT=8200'',
      [],
      ''# Port Mappings'',
      ''HARDHAT_PORT=8545'',
      ''ADDITIONAL_BLOCKCHAIN_PORT=8556'',
      ''FRONTEND_PORT=3001'',
      ''API_PORT=5001'',
      ''DOC_PORT=8081''])"

definition create_default_env :: "path \<Rightarrow> world \<Rightarrow> unit result" where
  "create_default_env env_path w =
     (case write_text w env_path default_content of
        Some w' \<Rightarrow> Inr ((), log GREEN CreatedDefaultEnv w')
      | None \<Rightarrow> Inl (SysExit 1, log RED ErrorCreatingDefaultEnv w))"

text \<open>Lines 60 to 64: one pair of double quotes is removed, else one pair of single quotes.
  The double quote is character 34, the single quote 39.\<close>

definition strip_quotes :: "pystr \<Rightarrow> pystr" where
  "strip_quotes v =
     (if py_startswith v [34] \<and> py_endswith v [34] then py_inner v
      else if py_startswith v [39] \<and> py_endswith v [39] then py_inner v
      else v)"

text \<open>The body of the loop over the lines (lines 48 to 68).\<close>

definition env_line :: "nat \<Rightarrow> pystr \<Rightarrow> pydict \<Rightarrow> world \<Rightarrow> pydict \<times> world" where
  "env_line line_num line0 env_vars w =
     (let line = py_strip line0 in
      if line = [] \<or> py_startswith line (lit ''#'') then (env_vars, w)
      else if py_contains line (lit ''='') then
        (let (key0, value0) = py_split1 61 line;
             key = py_strip key0;
             v = strip_quotes (py_strip value0)
         in (dict_set env_vars key v, w))
      else (env_vars, log YELLOW (InvalidLine line_num line) w))"

fun env_loop :: "nat \<Rightarrow> pystr list \<Rightarrow> pydict \<Rightarrow> world \<Rightarrow> pydict \<times> world" where
  "env_loop line_num [] env_vars w = (env_vars, w)"
| "env_loop line_num (line # rest) env_vars w =
     (case env_line line_num line env_vars w of
        (env_vars', w') \<Rightarrow> env_loop (Suc line_num) rest env_vars' w')"

definition load_env_file :: "path \<Rightarrow> world \<Rightarrow> pydict result" where
  "load_env_file env_path w =
     (case (if \<not> path_exists w env_path
            then create_default_env env_path (log BLUE CreatingDefaultEnv (log YELLOW EnvNotFound w))
            else Inr ((), w)) of
        Inl e \<Rightarrow> Inl e
      | Inr (_, w1) \<Rightarrow>
          (case read_text w1 env_path of
             None \<Rightarrow> Inl (SysExit 1, log RED ErrorReadingEnv w1)
           | Some text \<Rightarrow> Inr (env_loop 1 (py_lines text) [] w1)))"

section \<open>JSON values\<close>

text \<open>
  What \<^verbatim>\<open>json.loads\<close> returns: \<^verbatim>\<open>None\<close>, a \<^verbatim>\<open>bool\<close>, an \<^verbatim>\<open>int\<close>, a \<^verbatim>\<open>float\<close> (kept as
  its text: nothing here computes with it), a \<^verbatim>\<open>str\<close>, a \<^verbatim>\<open>list\<close> or a \<^verbatim>\<open>dict\<close> with
  string keys. The parser itself belongs to Python's library, not to this repository: the
  functions below take it as the parameter \<open>json_loads\<close>, which answers \<open>None\<close> where the
  parser raises \<^verbatim>\<open>JSONDecodeError\<close>. (Any other exception of the parser would reach the
  handler of line 159, which ends in \<^verbatim>\<open>sys.exit(1)\<close> as well, with another message.)
\<close>

datatype json =
    JNull | JBool bool | JInt int | JFloat pystr | JString pystr
  | JArray "json list" | JObject "(pystr \<times> json) list"

text \<open>
  \<^verbatim>\<open>field in config\<close> for a string \<open>field\<close>: a key of a dict, an element of a list, a
  substring of a string; on any other value Python raises \<^verbatim>\<open>TypeError\<close> (\<open>None\<close> here).
\<close>

fun py_in :: "pystr \<Rightarrow> json \<Rightarrow> bool option" where
  "py_in field (JObject kvs) = Some (field \<in> set (map fst kvs))"
| "py_in field (JArray xs) = Some (JString field \<in> set xs)"
| "py_in field (JString s) = Some (py_contains s field)"
| "py_in field _ = None"

section \<open>Generating the configuration\<close>

definition WORKSPACE_TOKEN :: pystr where
  "WORKSPACE_TOKEN = lit ''__WORKSPACE_NAME__''"

definition DIAMOND_TOKEN :: pystr where
  "DIAMOND_TOKEN = lit ''__DIAMOND_NAME__''"

text \<open>Lines 120 and 121: the two values, with their defaults.\<close>

definition workspace_name_of :: "pydict \<Rightarrow> pystr" where
  "workspace_name_of env_vars = dict_get env_vars (lit ''WORKSPACE_NAME'') (lit ''diamonds_project'')"

definition diamond_name_of :: "pydict \<Rightarrow> pystr" where
  "diamond_name_of env_vars = dict_get env_vars (lit ''DIAMOND_NAME'') (lit ''ExampleDiamond'')"

text \<open>Line 124: the test on the workspace name.\<close>

definition valid_workspace_name :: "(pychar \<Rightarrow> bool) \<Rightarrow> pystr \<Rightarrow> bool" where
  "valid_workspace_name ucd workspace_name =
     py_isalnum ucd (py_replace (py_replace workspace_name (lit ''_'') []) (lit ''-'') [])"

text \<open>Lines 140 to 142: the two replacements, one after the other.\<close>

definition render :: "pystr \<Rightarrow> pystr \<Rightarrow> pystr \<Rightarrow> pystr" where
  "render template workspace_name diamond_name =
     py_replace (py_replace template WORKSPACE_TOKEN workspace_name) DIAMOND_TOKEN diamond_name"

text \<open>Lines 169 and 170: every pair of the dict goes to the process environment; the first
  assignment that raises ends the loop.\<close>

fun export_env :: "pydict \<Rightarrow> world \<Rightarrow> world + world" where
  "export_env [] w = Inr w"
| "export_env ((key, v) # rest) w =
     (case environ_set w key v of None \<Rightarrow> Inl w | Some w' \<Rightarrow> export_env rest w')"

definition generate_devcontainer ::
  "(pychar \<Rightarrow> bool) \<Rightarrow> (pystr \<Rightarrow> json option) \<Rightarrow> path \<Rightarrow> path \<Rightarrow> pydict \<Rightarrow> world \<Rightarrow> unit result"
where
  "generate_devcontainer ucd json_loads template_path output_path env_vars w =
     (let workspace_name = workspace_name_of env_vars;
          diamond_name = diamond_name_of env_vars
      in
      if \<not> valid_workspace_name ucd workspace_name then
        Inl (SysExit 1, log YELLOW WorkspaceNameRule (log RED (InvalidWorkspaceName workspace_name) w))
      else if \<not> path_exists w template_path then
        Inl (SysExit 1, log YELLOW EnsureTemplateExists (log RED TemplateNotFound w))
      else
        (case read_text w template_path of
           None \<Rightarrow> Inl (SysExit 1, log RED ErrorGenerating w)
         | Some template \<Rightarrow>
             (let output = render template workspace_name diamond_name in
              case json_loads output of
                None \<Rightarrow> Inl (SysExit 1, log RED InvalidJson w)
              | Some _ \<Rightarrow>
                  (case write_text w output_path output of
                     None \<Rightarrow> Inl (SysExit 1, log RED ErrorGenerating w)
                   | Some w1 \<Rightarrow>
                       (let w2 = log NC (ShowDiamondName diamond_name)
                                   (log NC (ShowWorkspaceName workspace_name)
                                     (log GREEN Generated w1))
                        in
                        case environ_set w2 (lit ''WORKSPACE_NAME'') workspace_name of
                          None \<Rightarrow> Inl (Uncaught, w2)
                        | Some w3 \<Rightarrow>
                            (case environ_set w3 (lit ''DIAMOND_NAME'') diamond_name of
                               None \<Rightarrow> Inl (Uncaught, w3)
                             | Some w4 \<Rightarrow>
                                 (case export_env env_vars w4 of
                                    Inl w5 \<Rightarrow> Inl (Uncaught, w5)
                                  | Inr w5 \<Rightarrow> Inr ((), w5))))))))"

section \<open>Verifying the generated file\<close>

definition required_fields :: "pystr list" where
  "required_fields = map lit [''name'', ''dockerComposeFile'', ''service'', ''workspaceFolder'']"

text \<open>\<^verbatim>\<open>json.load(f)\<close> on the file opened for reading (lines 183 and 184).\<close>

definition load_json :: "(pystr \<Rightarrow> json option) \<Rightarrow> world \<Rightarrow> path \<Rightarrow> json option" where
  "load_json json_loads w p =
     (case read_text w p of None \<Rightarrow> None | Some text \<Rightarrow> json_loads text)"

text \<open>The loop over the required fields (lines 188 to 193); a \<^verbatim>\<open>TypeError\<close> of the
  membership test reaches the handler of line 195.\<close>

fun check_fields :: "json \<Rightarrow> pystr list \<Rightarrow> world \<Rightarrow> bool \<times> world" where
  "check_fields config [] w = (True, w)"
| "check_fields config (field # rest) w =
     (case py_in field config of
        None \<Rightarrow> (False, log RED ErrorVerifying w)
      | Some False \<Rightarrow> (False, log YELLOW (MissingField field) w)
      | Some True \<Rightarrow> check_fields config rest w)"

definition verify_generated_config ::
  "(pystr \<Rightarrow> json option) \<Rightarrow> path \<Rightarrow> world \<Rightarrow> bool \<times> world"
where
  "verify_generated_config json_loads output_path w =
     (case load_json json_loads w output_path of
        None \<Rightarrow> (False, log RED ErrorVerifying w)
      | Some config \<Rightarrow> check_fields config required_fields w)"

section \<open>The program\<close>

text \<open>Lines 209 to 215: the heading, printed before anything is read.\<close>

definition banner :: "world \<Rightarrow> world" where
  "banner w = log BLUE LoadingEnv (log NC Blank (log BLUE Rule (log BLUE Title (log BLUE Rule w))))"

definition main ::
  "(pychar \<Rightarrow> bool) \<Rightarrow> (pystr \<Rightarrow> json option) \<Rightarrow> path \<Rightarrow> world \<Rightarrow> unit result"
where
  "main ucd json_loads devcontainer_dir w =
     (let env_path = devcontainer_dir @ ''/.env'';
          template_path = devcontainer_dir @ ''/devcontainer.template.json'';
          output_path = devcontainer_dir @ ''/devcontainer.json''
      in
      case load_env_file env_path (banner w) of
        Inl e \<Rightarrow> Inl e
      | Inr (env_vars, w1) \<Rightarrow>
          (let w2 = log BLUE Generating (log NC Blank (log GREEN (Loaded (length env_vars)) w1)) in
           case generate_devcontainer ucd json_loads template_path output_path env_vars w2 of
             Inl e \<Rightarrow> Inl e
           | Inr (_, w3) \<Rightarrow>
               (case verify_generated_config json_loads output_path
                       (log BLUE Verifying (log NC Blank w3)) of
                  (ok, w4) \<Rightarrow>
                    Inr ((), log NC Blank (log BLUE WillStart (log NC Blank (log GREEN Rule
                          (log GREEN Complete (log GREEN Rule (log NC Blank
                            (log (if ok then GREEN else YELLOW)
                                 (if ok then ConfigValid else ConfigMayHaveIssues) w4)))))))))))"

text \<open>
  The block under \<^verbatim>\<open>if __name__ == '__main__'\<close>: the exit status of the process. A return
  of \<open>main\<close> is status 0, \<^verbatim>\<open>sys.exit(n)\<close> is status \<open>n\<close>, and any other exception is
  reported and ends in \<^verbatim>\<open>sys.exit(1)\<close>. (An interrupt from the keyboard, which may arrive at
  any moment, is not modelled.)
\<close>

definition script ::
  "(pychar \<Rightarrow> bool) \<Rightarrow> (pystr \<Rightarrow> json option) \<Rightarrow> path \<Rightarrow> world \<Rightarrow> nat \<times> world"
where
  "script ucd json_loads devcontainer_dir w =
     (case main ucd json_loads devcontainer_dir w of
        Inr (_, w') \<Rightarrow> (0, w')
      | Inl (SysExit n, w') \<Rightarrow> (n, w')
      | Inl (Uncaught, w') \<Rightarrow> (1, log RED UnexpectedError w'))"

section \<open>Concrete instances of the parameters\<close>

text \<open>
  The theorems below hold for every character table and every parser. Where one of them is
  run on a concrete input, the table is \<open>ascii_only\<close>, which knows no alphanumeric character
  beyond ASCII (the inputs are ASCII, so the table is never asked), and the parser is
  \<open>flat_loads\<close>, which reads a fragment of JSON without white space: a string without
  escapes, a list of such strings, or an object whose values are such strings. On that
  fragment it answers as \<^verbatim>\<open>json.loads\<close> does (a repeated key keeps its last value); every
  other text it rejects.
\<close>

definition ascii_only :: "pychar \<Rightarrow> bool" where
  "ascii_only c = False"

datatype token = TString pystr | TPunct pychar

fun tokenize :: "pystr option \<Rightarrow> pystr \<Rightarrow> token list option" where
  "tokenize None [] = Some []"
| "tokenize (Some acc) [] = None"
| "tokenize None (c # cs) =
     (if c = 34 then tokenize (Some []) cs
      else if c \<in> set (lit ''{}[]:,'') then map_option ((#) (TPunct c)) (tokenize None cs)
      else None)"
| "tokenize (Some acc) (c # cs) =
     (if c = 34 then map_option ((#) (TString acc)) (tokenize None cs)
      else if c = 92 \<or> c < 32 then None
      else tokenize (Some (acc @ [c])) cs)"

fun members :: "token list \<Rightarrow> (pystr \<times> json) list \<Rightarrow> json option" where
  "members [TString k, TPunct c1, TString v, TPunct c2] acc =
     (if c1 = 58 \<and> c2 = 125 then Some (JObject (AList.update k (JString v) acc)) else None)"
| "members (TString k # TPunct c1 # TString v # TPunct c2 # rest) acc =
     (if c1 = 58 \<and> c2 = 44 then members rest (AList.update k (JString v) acc) else None)"
| "members _ acc = None"

fun elements :: "token list \<Rightarrow> json list \<Rightarrow> json option" where
  "elements [TString v, TPunct c] acc = (if c = 93 then Some (JArray (acc @ [JString v])) else None)"
| "elements (TString v # TPunct c # rest) acc =
     (if c = 44 then elements rest (acc @ [JString v]) else None)"
| "elements _ acc = None"

definition flat_loads :: "pystr \<Rightarrow> json option" where
  "flat_loads s =
     (case tokenize None s of
        None \<Rightarrow> None
      | Some [] \<Rightarrow> None
      | Some (TString v # rest) \<Rightarrow> (if rest = [] then Some (JString v) else None)
      | Some (TPunct c # rest) \<Rightarrow>
          (if c = 123 then (if rest = [TPunct 125] then Some (JObject []) else members rest [])
           else if c = 91 then (if rest = [TPunct 93] then Some (JArray []) else elements rest [])
           else None))"

text \<open>The state in which a call ends, however it ends.\<close>

definition final_world :: "'a result \<Rightarrow> world" where
  "final_world r = (case r of Inl (_, w) \<Rightarrow> w | Inr (_, w) \<Rightarrow> w)"

text \<open>A state with the given files, all of them readable and writable, an empty process
  environment and nothing printed yet.\<close>

definition new_world :: "(path \<times> pystr) list \<Rightarrow> world" where
  "new_world fs = \<lparr>files = map_of fs, faulty = (\<lambda>_. False), environ = Map.empty, out = []\<rparr>"

section \<open>The mapping in the words of the specification\<close>

text \<open>
  The specification describes the loaded mapping line by line. A line is trimmed; an empty
  line and a line that starts with \<^verbatim>\<open>#\<close> (35) give nothing; a line of the form
  \<^verbatim>\<open>KEY=VALUE\<close> is split at its first \<^verbatim>\<open>=\<close> (61) and gives the trimmed key with the
  trimmed value, one layer of surrounding quotes taken off when the first and the last
  character of the value are the same quote mark; any other line gives nothing. A key is
  bound to the value of the last line that gives it. These definitions are what the loop
  of \<open>load_env_file\<close> is compared with.
\<close>

definition spec_unquote :: "pystr \<Rightarrow> pystr" where
  "spec_unquote v =
     (if v \<noteq> [] \<and> hd v = last v \<and> (hd v = 34 \<or> hd v = 39) then butlast (tl v) else v)"

definition spec_assignment :: "pystr \<Rightarrow> (pystr \<times> pystr) option" where
  "spec_assignment line0 =
     (let line = py_strip line0 in
      if line = [] \<or> hd line = 35 then None
      else if 61 \<in> set line
        then Some (py_strip (takeWhile (\<lambda>c. c \<noteq> 61) line),
                   spec_unquote (py_strip (tl (dropWhile (\<lambda>c. c \<noteq> 61) line))))
        else None)"

definition spec_mapping :: "pystr list \<Rightarrow> pystr \<Rightarrow> pystr option" where
  "spec_mapping ls k =
     (case filter (\<lambda>kv. fst kv = k) (List.map_filter spec_assignment ls) of
        [] \<Rightarrow> None
      | kvs \<Rightarrow> Some (snd (last kvs)))"

section \<open>Templates as text pieces and tokens\<close>

text \<open>
  To say where the substituted values stand, a template is written as its text pieces with
  a placeholder between each two: \<open>assemble token_of c0 [(p1, c1), \<dots>, (pn, cn)]\<close> is the
  text \<open>c0\<close>, the token of \<open>p1\<close>, \<open>c1\<close>, \<dots>, the token of \<open>pn\<close>, \<open>cn\<close>; with the two values in
  place of \<open>token_of\<close> it is the text in which every token has given way to its value.

  \<open>runs p f c0 segs\<close> cuts such a text at the places of the placeholder \<open>p\<close>: it lists
  the stretches of text between one place of \<open>p\<close> and the next, the other placeholder
  written out by \<open>f\<close>. The token of \<open>p\<close> \<^emph>\<open>stands only at its places\<close> when a scan from the
  left cannot meet it anywhere else: it occurs in no stretch, also not when the stretch is
  followed by all but the last character of the token (the beginning of the token that
  stands behind it).
\<close>

datatype placeholder = WorkspaceName | DiamondName

fun token_of :: "placeholder \<Rightarrow> pystr" where
  "token_of WorkspaceName = WORKSPACE_TOKEN"
| "token_of DiamondName = DIAMOND_TOKEN"

fun value_of :: "pystr \<Rightarrow> pystr \<Rightarrow> placeholder \<Rightarrow> pystr" where
  "value_of workspace_name diamond_name WorkspaceName = workspace_name"
| "value_of workspace_name diamond_name DiamondName = diamond_name"

fun assemble :: "(placeholder \<Rightarrow> pystr) \<Rightarrow> pystr \<Rightarrow> (placeholder \<times> pystr) list \<Rightarrow> pystr" where
  "assemble f c0 [] = c0"
| "assemble f c0 ((p, c) # segs) = c0 @ f p @ assemble f c segs"

fun runs :: "placeholder \<Rightarrow> (placeholder \<Rightarrow> pystr) \<Rightarrow> pystr \<Rightarrow> (placeholder \<times> pystr) list \<Rightarrow> pystr list" where
  "runs p f c0 [] = [c0]"
| "runs p f c0 ((q, c) # segs) =
     (if q = p then c0 # runs p f c segs
      else (c0 @ f q @ hd (runs p f c segs)) # tl (runs p f c segs))"

definition stands_only_at_its_places ::
  "placeholder \<Rightarrow> (placeholder \<Rightarrow> pystr) \<Rightarrow> pystr \<Rightarrow> (placeholder \<times> pystr) list \<Rightarrow> bool"
where
  "stands_only_at_its_places p f c0 segs \<longleftrightarrow>
     list_all (\<lambda>r. \<not> sublist (token_of p) (r @ butlast (token_of p))) (butlast (runs p f c0 segs))
     \<and> \<not> sublist (token_of p) (last (runs p f c0 segs))"

section \<open>Basic facts\<close>

lemma log_fields [simp]:
  "files (log c m w) = files w" "faulty (log c m w) = faulty w"
  "environ (log c m w) = environ w" "out (log c m w) = out w @ [(c, m)]"
  by (simp_all add: log_def)

lemma read_text_log [simp]: "read_text (log c m w) p = read_text w p"
  by (simp add: read_text_def)

lemma path_exists_log [simp]: "path_exists (log c m w) p = path_exists w p"
  by (simp add: path_exists_def)

section \<open>Quote stripping\<close>

lemma py_startswith_single: "py_startswith v [q] \<longleftrightarrow> v \<noteq> [] \<and> hd v = q"
  by (cases v) (auto simp: py_startswith_def)

lemma py_endswith_single: "py_endswith v [q] \<longleftrightarrow> v \<noteq> [] \<and> last v = q"
  by (cases v rule: rev_cases) (auto simp: py_endswith_def suffix_def)

lemma strip_quotes_cases:
  "strip_quotes v =
     (if v \<noteq> [] \<and> hd v = last v \<and> (hd v = 34 \<or> hd v = 39) then butlast (tl v) else v)"
  unfolding strip_quotes_def py_startswith_single py_endswith_single py_inner_def
  by auto

text \<open>
  Claim C9. The loader removes exactly one layer of quotes, and only when the first and the
  last character of the value are the same quote mark: a value that is one quote character
  becomes the empty string, and a value whose first and last characters differ is kept as
  it is, quotes included.
\<close>

theorem strip_quotes_one_layer:
  "(q = 34 \<or> q = 39 \<longrightarrow> strip_quotes (q # mid @ [q]) = mid \<and> strip_quotes [q] = [])
   \<and> (a \<noteq> b \<longrightarrow> strip_quotes (a # mid @ [b]) = a # mid @ [b])
   \<and> (\<not> (v \<noteq> [] \<and> hd v = last v \<and> (hd v = 34 \<or> hd v = 39)) \<longrightarrow> strip_quotes v = v)"
proof (intro conjI impI)
  assume "q = 34 \<or> q = 39"
  then show "strip_quotes (q # mid @ [q]) = mid" "strip_quotes [q] = []"
    by (auto simp: strip_quotes_cases butlast_append)
next
  assume "a \<noteq> b"
  then show "strip_quotes (a # mid @ [b]) = a # mid @ [b]"
    by (simp add: strip_quotes_cases)
next
  assume "\<not> (v \<noteq> [] \<and> hd v = last v \<and> (hd v = 34 \<or> hd v = 39))"
  then show "strip_quotes v = v"
    by (simp only: strip_quotes_cases if_False)
qed

theorem strip_quotes_one_layer_witness:
  "strip_quotes (lit ''\"\"a b\"\"'') = lit ''\"a b\"''
   \<and> strip_quotes (lit ''\"'') = [] \<and> strip_quotes (lit [CHR 39]) = []
   \<and> strip_quotes (lit ''\"a'' @ [39]) = lit ''\"a'' @ [39]
   \<and> strip_quotes (lit ''plain'') = lit ''plain''"
  using strip_quotes_one_layer [of 34 "lit ''\"a b\"''" 34 39 "lit ''plain''"]
        strip_quotes_one_layer [of 39 "[]" 34 39 "[]"]
        strip_quotes_one_layer [of 34 "lit ''a''" 34 39 "[]"]
  by (simp add: lit_def)

section \<open>What the steps leave as it was\<close>

lemma env_line_world:
  "files (snd (env_line n l e w)) = files w \<and> faulty (snd (env_line n l e w)) = faulty w
   \<and> environ (snd (env_line n l e w)) = environ w"
  by (simp add: env_line_def Let_def split: prod.splits)

lemma env_loop_world:
  "files (snd (env_loop n ls e w)) = files w \<and> faulty (snd (env_loop n ls e w)) = faulty w
   \<and> environ (snd (env_loop n ls e w)) = environ w"
proof (induction ls arbitrary: n e w)
  case Nil
  show ?case by simp
next
  case (Cons l ls)
  obtain e' w' where step: "env_line n l e w = (e', w')" by (cases "env_line n l e w")
  from env_line_world [of n l e w] step
  have "files w' = files w" "faulty w' = faulty w" "environ w' = environ w" by simp_all
  with Cons.IH [of "Suc n" e' w'] step show ?case by simp
qed

lemma load_env_file_files:
  assumes "load_env_file p w = Inr (env, w1)"
  shows "faulty w1 = faulty w" and "p' \<noteq> p \<Longrightarrow> files w1 p' = files w p'"
  using assms env_loop_world
  by (auto simp: load_env_file_def create_default_env_def write_text_def
           split: if_splits option.splits sum.splits prod.splits
           dest!: arg_cong [where f = snd])


lemma write_text_files:
  "write_text w p s = Some w' \<Longrightarrow> files w' = (files w)(p \<mapsto> s) \<and> faulty w' = faulty w \<and> environ w' = environ w \<and> out w' = out w"
  by (auto simp: write_text_def split: if_splits)

lemma environ_set_world:
  "environ_set w k v = Some w' \<Longrightarrow> files w' = files w \<and> faulty w' = faulty w \<and> out w' = out w"
  by (auto simp: environ_set_def split: if_splits)

lemma export_env_world:
  "files (case_sum id id (export_env e w)) = files w \<and> faulty (case_sum id id (export_env e w)) = faulty w
   \<and> out (case_sum id id (export_env e w)) = out w"
proof (induction e arbitrary: w)
  case Nil
  show ?case by simp
next
  case (Cons kv e)
  obtain k v where kv: "kv = (k, v)" by (cases kv)
  show ?case
  proof (cases "environ_set w k v")
    case None
    with kv show ?thesis by simp
  next
    case (Some w')
    with Cons.IH [of w'] environ_set_world [OF Some] kv show ?thesis by simp
  qed
qed

lemma export_env_files:
  "export_env e w = Inr w' \<Longrightarrow> files w' = files w \<and> faulty w' = faulty w \<and> out w' = out w"
  "export_env e w = Inl w' \<Longrightarrow> files w' = files w \<and> faulty w' = faulty w \<and> out w' = out w"
  using export_env_world [of e w] by simp_all


lemma generate_invalid_json:
  assumes "read_text w template_path = Some template"
    and "json_loads (render template (workspace_name_of env_vars) (diamond_name_of env_vars)) = None"
  shows "\<exists>w'. generate_devcontainer ucd json_loads template_path output_path env_vars w
               = Inl (SysExit 1, w')
             \<and> files w' = files w"
  using assms by (simp add: generate_devcontainer_def Let_def)

lemma read_text_exists: "read_text w p = Some t \<Longrightarrow> path_exists w p"
  by (auto simp: read_text_def path_exists_def split: if_splits)

lemma generate_writes:
  assumes "valid_workspace_name ucd (workspace_name_of env_vars)"
    and "read_text w template_path = Some template"
    and "json_loads (render template (workspace_name_of env_vars) (diamond_name_of env_vars)) = Some j"
    and "\<not> faulty w output_path"
  shows "files (final_world (generate_devcontainer ucd json_loads template_path output_path env_vars w))
         = (files w)(output_path \<mapsto>
              render template (workspace_name_of env_vars) (diamond_name_of env_vars))"
  using assms read_text_exists [OF assms(2)]
  by (auto simp: generate_devcontainer_def Let_def final_world_def write_text_def
           split: option.splits sum.splits
           dest!: environ_set_world export_env_files)

lemma main_files_output:
  assumes "load_env_file (dir @ ''/.env'') (banner w) = Inr (env_vars, w1)"
  shows "files w1 (dir @ ''/devcontainer.json'') = files w (dir @ ''/devcontainer.json'')"
  using load_env_file_files(2) [OF assms, of "dir @ ''/devcontainer.json''"]
  by (simp add: banner_def)

section \<open>Invalid JSON after substitution\<close>

text \<open>
  Claim C3. If the text after substitution does not parse as JSON, the program ends with
  exit status 1 before it writes the output file: the file at the output path is what it
  was before the run (here for the whole script, once the environment file has been loaded
  and the template has been read).
\<close>

theorem invalid_json_aborts_before_write:
  assumes "load_env_file (dir @ ''/.env'') (banner w) = Inr (env_vars, w1)"
    and "read_text w1 (dir @ ''/devcontainer.template.json'') = Some template"
    and "json_loads (render template (workspace_name_of env_vars) (diamond_name_of env_vars)) = None"
  shows "fst (script ucd json_loads dir w) = 1
         \<and> files (snd (script ucd json_loads dir w)) (dir @ ''/devcontainer.json'')
             = files w (dir @ ''/devcontainer.json'')"
proof -
  let ?w2 = "log BLUE Generating (log NC Blank (log GREEN (Loaded (length env_vars)) w1))"
  have "read_text ?w2 (dir @ ''/devcontainer.template.json'') = Some template"
    using assms(2) by simp
  from generate_invalid_json [where json_loads = json_loads and env_vars = env_vars, OF this assms(3)]
  obtain w' where g: "generate_devcontainer ucd json_loads (dir @ ''/devcontainer.template.json'')
        (dir @ ''/devcontainer.json'') env_vars ?w2 = Inl (SysExit 1, w')"
    and f: "files w' = files ?w2" by blast
  have "script ucd json_loads dir w = (1, w')"
    using assms(1) g by (simp add: script_def main_def Let_def)
  with f main_files_output [OF assms(1)] show ?thesis by simp
qed



lemmas run_defs =
  load_env_file_def create_default_env_def path_exists_def read_text_def write_text_def
  new_world_def banner_def py_lines_def env_line_def py_strip_def py_isspace_def lit_def
  py_startswith_def py_endswith_def py_contains_def py_split1_def strip_quotes_def py_inner_def
  dict_set_def sublist_Cons_right suffix_def

theorem invalid_json_aborts_before_write_witness:
  "fst (script ascii_only flat_loads ''/d''
      (new_world [(''/d/.env'', lit ''DIAMOND_NAME=a\"b'' @ [10]),
                  (''/d/devcontainer.template.json'', lit ''{\"name\":\"__DIAMOND_NAME__\"}'')])) = 1
   \<and> files (snd (script ascii_only flat_loads ''/d''
      (new_world [(''/d/.env'', lit ''DIAMOND_NAME=a\"b'' @ [10]),
                  (''/d/devcontainer.template.json'', lit ''{\"name\":\"__DIAMOND_NAME__\"}'')])))
        ''/d/devcontainer.json'' = None"
proof -
  let ?w = "new_world [(''/d/.env'', lit ''DIAMOND_NAME=a\"b'' @ [10]),
                  (''/d/devcontainer.template.json'', lit ''{\"name\":\"__DIAMOND_NAME__\"}'')]"
  let ?env = "[(lit ''DIAMOND_NAME'', lit ''a\"b'')]"
  have h1: "load_env_file (''/d'' @ ''/.env'') (banner ?w) = Inr (?env, banner ?w)"
    by (simp add: run_defs)
  have h2: "read_text (banner ?w) (''/d'' @ ''/devcontainer.template.json'')
              = Some (lit ''{\"name\":\"__DIAMOND_NAME__\"}'')"
    by (simp add: run_defs)
  have h3: "flat_loads (render (lit ''{\"name\":\"__DIAMOND_NAME__\"}'')
              (workspace_name_of ?env) (diamond_name_of ?env)) = None"
    by code_simp
  from invalid_json_aborts_before_write [where json_loads = flat_loads and ucd = ascii_only, OF h1 h2 h3]
  show ?thesis by (simp add: new_world_def)
qed

section \<open>Default values\<close>

lemma valid_default_workspace_name: "valid_workspace_name ucd (lit ''diamonds_project'')"
  by (simp add: valid_workspace_name_def py_replace_def py_isalnum_def isalnum_char_def lit_def)



section \<open>The identifier check\<close>

lemma replace_scan_single_empty: "replace_scan [a] [] s = filter (\<lambda>c. c \<noteq> a) s"
  by (induction s) auto

lemma valid_workspace_name_iff:
  "valid_workspace_name ucd s \<longleftrightarrow>
     (\<exists>c\<in>set s. c \<noteq> 95 \<and> c \<noteq> 45) \<and> (\<forall>c\<in>set s. c = 95 \<or> c = 45 \<or> isalnum_char ucd c)"
  by (auto simp: valid_workspace_name_def py_replace_def py_isalnum_def lit_def
        replace_scan_single_empty filter_empty_conv list_all_iff)

lemma generate_invalid_name:
  assumes "\<not> valid_workspace_name ucd (workspace_name_of env_vars)"
  shows "\<exists>w'. generate_devcontainer ucd json_loads template_path output_path env_vars w
               = Inl (SysExit 1, w')
             \<and> files w' = files w"
  using assms by (simp add: generate_devcontainer_def Let_def)

text \<open>
  Claim C2, as amended. The check on the workspace name answers true exactly when the value
  has a character besides underscores and hyphens and every such character is alphanumeric.
  So a string over the letters, the digits, the underscore (95) and the hyphen (45) passes
  when it holds a letter or a digit, and a string with any character that is neither
  alphanumeric nor one of these two signs fails; when the workspace name fails, the script
  ends with exit status 1 and leaves the output file as it was.
\<close>

theorem workspace_name_check:
  "(valid_workspace_name ucd s \<longleftrightarrow>
      (\<exists>c\<in>set s. c \<noteq> 95 \<and> c \<noteq> 45) \<and> (\<forall>c\<in>set s. c = 95 \<or> c = 45 \<or> isalnum_char ucd c))
   \<and> ((\<forall>c\<in>set s. (48 \<le> c \<and> c \<le> 57) \<or> (65 \<le> c \<and> c \<le> 90) \<or> (97 \<le> c \<and> c \<le> 122)
                     \<or> c = 95 \<or> c = 45)
        \<and> (\<exists>c\<in>set s. c \<noteq> 95 \<and> c \<noteq> 45)
        \<longrightarrow> valid_workspace_name ucd s)
   \<and> ((\<exists>c\<in>set s. \<not> isalnum_char ucd c \<and> c \<noteq> 95 \<and> c \<noteq> 45) \<longrightarrow> \<not> valid_workspace_name ucd s)
   \<and> (load_env_file (dir @ ''/.env'') (banner w) = Inr (env_vars, w1)
        \<and> \<not> valid_workspace_name ucd (workspace_name_of env_vars)
        \<longrightarrow> fst (script ucd json_loads dir w) = 1
            \<and> files (snd (script ucd json_loads dir w)) (dir @ ''/devcontainer.json'')
                = files w (dir @ ''/devcontainer.json''))"
proof (intro conjI impI)
  show "valid_workspace_name ucd s \<longleftrightarrow>
      (\<exists>c\<in>set s. c \<noteq> 95 \<and> c \<noteq> 45) \<and> (\<forall>c\<in>set s. c = 95 \<or> c = 45 \<or> isalnum_char ucd c)"
    by (rule valid_workspace_name_iff)
next
  assume "(\<forall>c\<in>set s. (48 \<le> c \<and> c \<le> 57) \<or> (65 \<le> c \<and> c \<le> 90) \<or> (97 \<le> c \<and> c \<le> 122)
                     \<or> c = 95 \<or> c = 45)
        \<and> (\<exists>c\<in>set s. c \<noteq> 95 \<and> c \<noteq> 45)"
  then show "valid_workspace_name ucd s"
    unfolding valid_workspace_name_iff isalnum_char_def by force
next
  assume "\<exists>c\<in>set s. \<not> isalnum_char ucd c \<and> c \<noteq> 95 \<and> c \<noteq> 45"
  then show "\<not> valid_workspace_name ucd s"
    unfolding valid_workspace_name_iff by blast
next
  assume a: "load_env_file (dir @ ''/.env'') (banner w) = Inr (env_vars, w1)
        \<and> \<not> valid_workspace_name ucd (workspace_name_of env_vars)"
  let ?w2 = "log BLUE Generating (log NC Blank (log GREEN (Loaded (length env_vars)) w1))"
  from a generate_invalid_name [where json_loads = json_loads and ucd = ucd and env_vars = env_vars
       and w = ?w2 and template_path = "dir @ ''/devcontainer.template.json''"
       and output_path = "dir @ ''/devcontainer.json''"]
  obtain w' where g: "generate_devcontainer ucd json_loads (dir @ ''/devcontainer.template.json'')
        (dir @ ''/devcontainer.json'') env_vars ?w2 = Inl (SysExit 1, w')"
    and f: "files w' = files ?w2" by blast
  have s: "script ucd json_loads dir w = (1, w')"
    using a g by (simp add: script_def main_def Let_def)
  from a have "load_env_file (dir @ ''/.env'') (banner w) = Inr (env_vars, w1)" by simp
  from main_files_output [OF this] f s
  show "fst (script ucd json_loads dir w) = 1"
    and "files (snd (script ucd json_loads dir w)) (dir @ ''/devcontainer.json'')
                = files w (dir @ ''/devcontainer.json'')"
    by simp_all
qed

theorem workspace_name_check_witness:
  "valid_workspace_name ascii_only (lit ''my-proj_1'')
   \<and> \<not> valid_workspace_name ascii_only (lit ''My Project!'')
   \<and> fst (script ascii_only flat_loads ''/d''
        (new_world [(''/d/.env'', lit ''WORKSPACE_NAME=My Project!'' @ [10])])) = 1
   \<and> files (snd (script ascii_only flat_loads ''/d''
        (new_world [(''/d/.env'', lit ''WORKSPACE_NAME=My Project!'' @ [10])]))) ''/d/devcontainer.json''
      = None"
proof -
  let ?w = "new_world [(''/d/.env'', lit ''WORKSPACE_NAME=My Project!'' @ [10])]"
  let ?env = "[(lit ''WORKSPACE_NAME'', lit ''My Project!'')]"
  have h1: "load_env_file (''/d'' @ ''/.env'') (banner ?w) = Inr (?env, banner ?w)"
    by (simp add: run_defs)
  have ws: "workspace_name_of ?env = lit ''My Project!''"
    by (simp add: workspace_name_of_def dict_get_def)
  have a: "\<forall>c\<in>set (lit ''my-proj_1''). (48 \<le> c \<and> c \<le> 57) \<or> (65 \<le> c \<and> c \<le> 90) \<or> (97 \<le> c \<and> c \<le> 122)
                     \<or> c = 95 \<or> c = 45"
    by (simp add: lit_def)
  have b: "\<exists>c\<in>set (lit ''my-proj_1''). c \<noteq> 95 \<and> c \<noteq> 45"
    by (simp add: lit_def)
  have c: "\<exists>c\<in>set (lit ''My Project!''). \<not> isalnum_char ascii_only c \<and> c \<noteq> 95 \<and> c \<noteq> 45"
    by (simp add: lit_def isalnum_char_def)
  have v: "valid_workspace_name ascii_only (lit ''my-proj_1'')"
    using workspace_name_check [of ascii_only "lit ''my-proj_1''", THEN conjunct2, THEN conjunct1] a b
    by blast
  note T = workspace_name_check [of ascii_only "lit ''My Project!''" "''/d''" ?w ?env "banner ?w" flat_loads]
  have n: "\<not> valid_workspace_name ascii_only (lit ''My Project!'')"
    using T [THEN conjunct2, THEN conjunct2, THEN conjunct1] c by blast
  then have n': "\<not> valid_workspace_name ascii_only (workspace_name_of ?env)"
    by (simp add: ws)
  note r = T [THEN conjunct2, THEN conjunct2, THEN conjunct2, THEN mp, OF conjI, OF h1 n']
  have o: "files ?w (''/d'' @ ''/devcontainer.json'') = None" by (simp add: new_world_def)
  from v n r o show ?thesis by simp
qed

theorem underscores_only_rejected:
  "\<not> valid_workspace_name ascii_only (lit ''_'')"
  by (simp add: valid_workspace_name_def py_replace_def py_isalnum_def lit_def)

section \<open>The diamond name is not checked\<close>

lemma names_after_dict_set:
  "workspace_name_of (dict_set env_vars (lit ''DIAMOND_NAME'') d) = workspace_name_of env_vars"
  "diamond_name_of (dict_set env_vars (lit ''DIAMOND_NAME'') d) = d"
  by (simp_all add: workspace_name_of_def diamond_name_of_def dict_get_def dict_set_def
        update_conv' lit_def)

lemma generate_invalid_json_log:
  assumes "valid_workspace_name ucd (workspace_name_of env_vars)"
    and "read_text w template_path = Some template"
    and "json_loads (render template (workspace_name_of env_vars) (diamond_name_of env_vars)) = None"
  shows "generate_devcontainer ucd json_loads template_path output_path env_vars w
           = Inl (SysExit 1, log RED InvalidJson w)"
  using assms read_text_exists [OF assms(2)] by (simp add: generate_devcontainer_def Let_def)

lemma generate_uncaught:
  assumes "valid_workspace_name ucd (workspace_name_of env_vars)"
    and "read_text w template_path = Some template"
    and "json_loads (render template (workspace_name_of env_vars) (diamond_name_of env_vars)) = Some j"
    and "\<not> faulty w output_path"
    and "0 \<notin> set (workspace_name_of env_vars)" and "0 \<in> set (diamond_name_of env_vars)"
  shows "\<exists>w'. generate_devcontainer ucd json_loads template_path output_path env_vars w
           = Inl (Uncaught, w')"
  using assms read_text_exists [OF assms(2)]
  by (simp add: generate_devcontainer_def Let_def write_text_def environ_set_def lit_def)

lemma script_uncaught:
  assumes "load_env_file (dir @ ''/.env'') (banner w) = Inr (env_vars, w1)"
    and "generate_devcontainer ucd json_loads (dir @ ''/devcontainer.template.json'')
           (dir @ ''/devcontainer.json'') env_vars
           (log BLUE Generating (log NC Blank (log GREEN (Loaded (length env_vars)) w1)))
         = Inl (Uncaught, w')"
  shows "fst (script ucd json_loads dir w) = 1"
  using assms by (simp add: script_def main_def Let_def)

theorem nul_diamond_name_aborts_after_write:
  "flat_loads (render (lit ''{\"name\":\"__WORKSPACE_NAME__\"}'') (lit ''diamonds_project'') [0])
     = Some (JObject [(lit ''name'', JString (lit ''diamonds_project''))])
   \<and> fst (script ascii_only flat_loads ''/d''
        (new_world [(''/d/.env'', lit ''DIAMOND_NAME='' @ [0, 10]),
                    (''/d/devcontainer.template.json'', lit ''{\"name\":\"__WORKSPACE_NAME__\"}'')])) = 1"
proof -
  let ?t = "lit ''{\"name\":\"__WORKSPACE_NAME__\"}''"
  let ?w = "new_world [(''/d/.env'', lit ''DIAMOND_NAME='' @ [0, 10]), (''/d/devcontainer.template.json'', ?t)]"
  let ?env = "[(lit ''DIAMOND_NAME'', [0::nat])]"
  let ?w2 = "log BLUE Generating (log NC Blank (log GREEN (Loaded (length ?env)) (banner ?w)))"
  have p: "flat_loads (render ?t (lit ''diamonds_project'') [0])
     = Some (JObject [(lit ''name'', JString (lit ''diamonds_project''))])"
    by code_simp
  have h1: "load_env_file (''/d'' @ ''/.env'') (banner ?w) = Inr (?env, banner ?w)"
    by (simp add: run_defs)
  have ws: "workspace_name_of ?env = lit ''diamonds_project''" "diamond_name_of ?env = [0]"
    by (simp_all add: workspace_name_of_def diamond_name_of_def dict_get_def lit_def)
  have v: "valid_workspace_name ascii_only (workspace_name_of ?env)"
    by (simp add: ws valid_default_workspace_name)
  have h2: "read_text ?w2 (''/d'' @ ''/devcontainer.template.json'') = Some ?t"
    by (simp add: run_defs)
  have h3: "\<not> faulty ?w2 (''/d'' @ ''/devcontainer.json'')" by (simp add: run_defs)
  have p': "flat_loads (render ?t (workspace_name_of ?env) (diamond_name_of ?env))
     = Some (JObject [(lit ''name'', JString (lit ''diamonds_project''))])"
    using p by (simp only: ws)
  have z: "0 \<notin> set (workspace_name_of ?env)" "0 \<in> set (diamond_name_of ?env)"
    by (simp_all add: ws, simp add: lit_def)
  from generate_uncaught [where json_loads = flat_loads, OF v h2 p' h3 z]
  obtain w' where "generate_devcontainer ascii_only flat_loads (''/d'' @ ''/devcontainer.template.json'')
      (''/d'' @ ''/devcontainer.json'') ?env ?w2 = Inl (Uncaught, w')" by blast
  from script_uncaught [OF h1 this] p show ?thesis by simp
qed

section \<open>A generated file without a required key\<close>

lemma check_fields_object_step:
  "check_fields (JObject kvs) (g # flds) w =
     (if g \<in> fst ` set kvs then check_fields (JObject kvs) flds w
      else (False, log YELLOW (MissingField g) w))"
  by simp

lemma check_fields_object_missing:
  assumes "\<exists>f\<in>set flds. f \<notin> fst ` set kvs"
  shows "\<exists>g\<in>set flds. g \<notin> fst ` set kvs
           \<and> check_fields (JObject kvs) flds w = (False, log YELLOW (MissingField g) w)"
  using assms
proof (induction flds)
  case Nil
  then show ?case by simp
next
  case (Cons a flds)
  show ?case
  proof (cases "a \<in> fst ` set kvs")
    case True
    with Cons.prems have "\<exists>f\<in>set flds. f \<notin> fst ` set kvs" by auto
    from Cons.IH [OF this] True show ?thesis
      by (auto simp only: check_fields_object_step if_True list.set insert_iff)
  next
    case False
    then show ?thesis
      by (auto simp only: check_fields_object_step if_False list.set insert_iff)
  qed
qed

lemma check_fields_object_complete:
  assumes "\<forall>f\<in>set flds. f \<in> fst ` set kvs"
  shows "check_fields (JObject kvs) flds w = (True, w)"
  using assms by (induction flds) (simp_all only: check_fields_object_step check_fields.simps list.set insert_iff ball_simps if_True, auto)

lemma export_env_ok:
  assumes "\<forall>(k, v)\<in>set env_vars. k \<noteq> [] \<and> 61 \<notin> set k \<and> 0 \<notin> set k \<and> 0 \<notin> set v"
  shows "\<exists>w'. export_env env_vars w = Inr w'"
  using assms
proof (induction env_vars arbitrary: w)
  case Nil
  show ?case by simp
next
  case (Cons kv env_vars)
  obtain k v where kv: "kv = (k, v)" by (cases kv)
  with Cons.prems have "environ_set w k v = Some (w\<lparr>environ := (environ w)(k \<mapsto> v)\<rparr>)"
    by (simp add: environ_set_def)
  moreover from Cons.prems have "\<forall>(k, v)\<in>set env_vars. k \<noteq> [] \<and> 61 \<notin> set k \<and> 0 \<notin> set k \<and> 0 \<notin> set v"
    by simp
  ultimately show ?case using Cons.IH kv by simp
qed

lemma valid_workspace_name_no_nul: "valid_workspace_name ucd s \<Longrightarrow> 0 \<notin> set s"
  by (auto simp: valid_workspace_name_iff isalnum_char_def)

lemma generate_returns:
  assumes "valid_workspace_name ucd (workspace_name_of env_vars)"
    and "read_text w template_path = Some template"
    and "json_loads (render template (workspace_name_of env_vars) (diamond_name_of env_vars)) = Some j"
    and "\<not> faulty w output_path"
    and "0 \<notin> set (diamond_name_of env_vars)"
    and "\<forall>(k, v)\<in>set env_vars. k \<noteq> [] \<and> 61 \<notin> set k \<and> 0 \<notin> set k \<and> 0 \<notin> set v"
  shows "\<exists>w3. generate_devcontainer ucd json_loads template_path output_path env_vars w = Inr ((), w3)
           \<and> files w3 = (files w)(output_path \<mapsto>
                render template (workspace_name_of env_vars) (diamond_name_of env_vars))
           \<and> faulty w3 = faulty w"
proof -
  let ?ws = "workspace_name_of env_vars" and ?dn = "diamond_name_of env_vars"
  let ?w1 = "w\<lparr>files := (files w)(output_path \<mapsto> render template ?ws ?dn)\<rparr>"
  let ?w2 = "log NC (ShowDiamondName ?dn) (log NC (ShowWorkspaceName ?ws) (log GREEN Generated ?w1))"
  let ?w3 = "?w2\<lparr>environ := (environ ?w2)(lit ''WORKSPACE_NAME'' \<mapsto> ?ws)\<rparr>"
  let ?w4 = "?w3\<lparr>environ := (environ ?w3)(lit ''DIAMOND_NAME'' \<mapsto> ?dn)\<rparr>"
  have wr: "write_text w output_path (render template ?ws ?dn) = Some ?w1"
    using assms(4) by (simp add: write_text_def)
  have e1: "environ_set ?w2 (lit ''WORKSPACE_NAME'') ?ws = Some ?w3"
    using valid_workspace_name_no_nul [OF assms(1)] by (simp add: environ_set_def lit_def)
  have e2: "environ_set ?w3 (lit ''DIAMOND_NAME'') ?dn = Some ?w4"
    using assms(5) by (simp add: environ_set_def lit_def)
  from export_env_ok [OF assms(6), of ?w4] obtain w5 where e3: "export_env env_vars ?w4 = Inr w5"
    by blast
  from export_env_files(1) [OF e3] have f: "files w5 = files ?w4" "faulty w5 = faulty ?w4" by simp_all
  have "generate_devcontainer ucd json_loads template_path output_path env_vars w = Inr ((), w5)"
    using assms(1,3) read_text_exists [OF assms(2)] assms(2) wr e1 e2 e3
    by (simp add: generate_devcontainer_def Let_def)
  with f show ?thesis by simp
qed

lemma main_after_generate:
  assumes "load_env_file (dir @ ''/.env'') (banner w) = Inr (env_vars, w1)"
    and "generate_devcontainer ucd json_loads (dir @ ''/devcontainer.template.json'')
           (dir @ ''/devcontainer.json'') env_vars
           (log BLUE Generating (log NC Blank (log GREEN (Loaded (length env_vars)) w1)))
         = Inr ((), w3)"
    and "verify_generated_config json_loads (dir @ ''/devcontainer.json'')
           (log BLUE Verifying (log NC Blank w3)) = (ok, w4)"
  shows "script ucd json_loads dir w =
           (0, log NC Blank (log BLUE WillStart (log NC Blank (log GREEN Rule
                 (log GREEN Complete (log GREEN Rule (log NC Blank
                    (log (if ok then GREEN else YELLOW)
                         (if ok then ConfigValid else ConfigMayHaveIssues) w4))))))))"
  using assms by (simp add: script_def main_def Let_def)

theorem list_of_names_passes_verification:
  "flat_loads (lit ''[\"name\",\"dockerComposeFile\",\"service\",\"workspaceFolder\"]'')
     = Some (JArray [JString (lit ''name''), JString (lit ''dockerComposeFile''),
                     JString (lit ''service''), JString (lit ''workspaceFolder'')])
   \<and> fst (verify_generated_config flat_loads ''/d/devcontainer.json''
        (new_world [(''/d/devcontainer.json'',
                     lit ''[\"name\",\"dockerComposeFile\",\"service\",\"workspaceFolder\"]'')]))"
proof -
  let ?t = "lit ''[\"name\",\"dockerComposeFile\",\"service\",\"workspaceFolder\"]''"
  let ?j = "JArray [JString (lit ''name''), JString (lit ''dockerComposeFile''),
                     JString (lit ''service''), JString (lit ''workspaceFolder'')]"
  have p: "flat_loads ?t = Some ?j" by code_simp
  have p': "flat_loads (universal_newlines ?t) = Some ?j" by code_simp
  have "load_json flat_loads (new_world [(''/d/devcontainer.json'', ?t)]) ''/d/devcontainer.json'' = Some ?j"
    using p' by (simp add: load_json_def read_text_def new_world_def)
  then have "fst (verify_generated_config flat_loads ''/d/devcontainer.json''
        (new_world [(''/d/devcontainer.json'', ?t)]))"
    by (simp add: verify_generated_config_def required_fields_def)
  with p show ?thesis by simp
qed

section \<open>A missing environment file\<close>

lemma default_lines:
  "py_lines (universal_newlines default_content) = map (\<lambda>l. lit l @ [10])
     [''# Diamonds DevContainer Configuration'',
      ''# Generated automatically - customize as needed'',
      [],
      ''# Project Identity'',
      ''WORKSPACE_NAME=diamonds_project'',
      ''DIAMOND_NAME=ExampleDiamond'',
      [],
      ''# Vault Configuration'',
      ''VAULT_COMMAND=server -dev -dev-root-token-id=root -dev-listen-address=0.0.0.0:8200'',
      ''VAULT_PORT=8200'',
      [],
      ''# Port Mappings'',
      ''HARDHAT_PORT=8545'',
      ''ADDITIONAL_BLOCKCHAIN_PORT=8556'',
      ''FRONTEND_PORT=3001'',
      ''API_PORT=5001'',
      ''DOC_PORT=8081'']"
  by code_simp

lemma default_env_loop:
  "env_loop 1 (py_lines (universal_newlines default_content)) [] w =
     (map (\<lambda>(k, v). (lit k, lit v))
       [(''WORKSPACE_NAME'', ''diamonds_project''),
        (''DIAMOND_NAME'', ''ExampleDiamond''),
        (''VAULT_COMMAND'', ''server -dev -dev-root-token-id=root -dev-listen-address=0.0.0.0:8200''),
        (''VAULT_PORT'', ''8200''),
        (''HARDHAT_PORT'', ''8545''),
        (''ADDITIONAL_BLOCKCHAIN_PORT'', ''8556''),
        (''FRONTEND_PORT'', ''3001''),
        (''API_PORT'', ''5001''),
        (''DOC_PORT'', ''8081'')], w)"
  unfolding default_lines
  by (simp add: run_defs)


lemma default_workspace_line:
  "sublist (lit ''WORKSPACE_NAME=diamonds_project'' @ [10]) default_content"
  by code_simp

lemma load_env_file_absent:
  assumes "\<not> path_exists w env_path" and "\<not> faulty w env_path"
  shows "load_env_file env_path w =
     Inr (map (\<lambda>(k, v). (lit k, lit v))
       [(''WORKSPACE_NAME'', ''diamonds_project''),
        (''DIAMOND_NAME'', ''ExampleDiamond''),
        (''VAULT_COMMAND'', ''server -dev -dev-root-token-id=root -dev-listen-address=0.0.0.0:8200''),
        (''VAULT_PORT'', ''8200''),
        (''HARDHAT_PORT'', ''8545''),
        (''ADDITIONAL_BLOCKCHAIN_PORT'', ''8556''),
        (''FRONTEND_PORT'', ''3001''),
        (''API_PORT'', ''5001''),
        (''DOC_PORT'', ''8081'')],
       log GREEN CreatedDefaultEnv
         ((log BLUE CreatingDefaultEnv (log YELLOW EnvNotFound w))
            \<lparr>files := (files w)(env_path \<mapsto> default_content)\<rparr>))"
  using assms
  by (simp add: load_env_file_def create_default_env_def write_text_def read_text_def
        default_env_loop del: One_nat_def)

text \<open>
  Claim C6. When the environment file is absent, the program first writes the default file,
  whose text holds the line \<^verbatim>\<open>WORKSPACE_NAME=diamonds_project\<close>, and then loads that file:
  the mapping it returns binds \<^verbatim>\<open>WORKSPACE_NAME\<close> to \<^verbatim>\<open>diamonds_project\<close>, and the render
  that follows replaces the workspace token by \<^verbatim>\<open>diamonds_project\<close> (and the diamond token
  by \<^verbatim>\<open>ExampleDiamond\<close>); that text is what reaches the output file.
\<close>

theorem absent_env_file_defaults:
  assumes "\<not> path_exists w env_path" and "\<not> faulty w env_path"
  shows "\<exists>env_vars w1. load_env_file env_path w = Inr (env_vars, w1)
     \<and> files w1 = (files w)(env_path \<mapsto> default_content) \<and> faulty w1 = faulty w
     \<and> sublist (lit ''WORKSPACE_NAME=diamonds_project'' @ [10]) default_content
     \<and> map_of env_vars (lit ''WORKSPACE_NAME'') = Some (lit ''diamonds_project'')
     \<and> (\<forall>template. render template (workspace_name_of env_vars) (diamond_name_of env_vars)
           = py_replace (py_replace template WORKSPACE_TOKEN (lit ''diamonds_project''))
               DIAMOND_TOKEN (lit ''ExampleDiamond''))
     \<and> (\<forall>ucd json_loads template_path output_path template.
           read_text w1 template_path = Some template
           \<and> json_loads (py_replace (py_replace template WORKSPACE_TOKEN (lit ''diamonds_project''))
                 DIAMOND_TOKEN (lit ''ExampleDiamond'')) \<noteq> None
           \<and> \<not> faulty w1 output_path
           \<longrightarrow> files (final_world (generate_devcontainer ucd json_loads template_path output_path
                    env_vars w1)) output_path
               = Some (py_replace (py_replace template WORKSPACE_TOKEN (lit ''diamonds_project''))
                   DIAMOND_TOKEN (lit ''ExampleDiamond'')))"
proof -
  let ?env = "map (\<lambda>(k, v). (lit k, lit v))
       [(''WORKSPACE_NAME'', ''diamonds_project''),
        (''DIAMOND_NAME'', ''ExampleDiamond''),
        (''VAULT_COMMAND'', ''server -dev -dev-root-token-id=root -dev-listen-address=0.0.0.0:8200''),
        (''VAULT_PORT'', ''8200''),
        (''HARDHAT_PORT'', ''8545''),
        (''ADDITIONAL_BLOCKCHAIN_PORT'', ''8556''),
        (''FRONTEND_PORT'', ''3001''),
        (''API_PORT'', ''5001''),
        (''DOC_PORT'', ''8081'')]"
  let ?w1 = "log GREEN CreatedDefaultEnv
         ((log BLUE CreatingDefaultEnv (log YELLOW EnvNotFound w))
            \<lparr>files := (files w)(env_path \<mapsto> default_content)\<rparr>)"
  have l: "load_env_file env_path w = Inr (?env, ?w1)"
    by (rule load_env_file_absent [OF assms])
  have f: "files ?w1 = (files w)(env_path \<mapsto> default_content) \<and> faulty ?w1 = faulty w" by simp
  have m: "map_of ?env (lit ''WORKSPACE_NAME'') = Some (lit ''diamonds_project'')" by simp
  have ws: "workspace_name_of ?env = lit ''diamonds_project''"
    by (simp add: workspace_name_of_def dict_get_def)
  have dn: "diamond_name_of ?env = lit ''ExampleDiamond''"
    by (simp add: diamond_name_of_def dict_get_def lit_def)
  have r: "\<forall>template. render template (workspace_name_of ?env) (diamond_name_of ?env)
           = py_replace (py_replace template WORKSPACE_TOKEN (lit ''diamonds_project''))
               DIAMOND_TOKEN (lit ''ExampleDiamond'')"
    by (simp only: ws dn render_def) simp
  have g: "\<forall>ucd json_loads template_path output_path template.
           read_text ?w1 template_path = Some template
           \<and> json_loads (py_replace (py_replace template WORKSPACE_TOKEN (lit ''diamonds_project''))
                 DIAMOND_TOKEN (lit ''ExampleDiamond'')) \<noteq> None
           \<and> \<not> faulty ?w1 output_path
           \<longrightarrow> files (final_world (generate_devcontainer ucd json_loads template_path output_path
                    ?env ?w1)) output_path
               = Some (py_replace (py_replace template WORKSPACE_TOKEN (lit ''diamonds_project''))
                   DIAMOND_TOKEN (lit ''ExampleDiamond''))"
  proof (intro allI impI, elim conjE)
    fix ucd :: "pychar \<Rightarrow> bool" and json_loads :: "pystr \<Rightarrow> json option"
      and template_path output_path template
    assume rd: "read_text ?w1 template_path = Some template"
      and js: "json_loads (py_replace (py_replace template WORKSPACE_TOKEN (lit ''diamonds_project''))
                 DIAMOND_TOKEN (lit ''ExampleDiamond'')) \<noteq> None"
      and nf: "\<not> faulty ?w1 output_path"
    have v: "valid_workspace_name ucd (workspace_name_of ?env)"
      by (simp only: ws valid_default_workspace_name)
    from js obtain j where
      "json_loads (render template (workspace_name_of ?env) (diamond_name_of ?env)) = Some j"
      by (simp only: ws dn render_def) auto
    from generate_writes [where json_loads = json_loads, OF v rd this nf]
    show "files (final_world (generate_devcontainer ucd json_loads template_path output_path
                    ?env ?w1)) output_path
               = Some (py_replace (py_replace template WORKSPACE_TOKEN (lit ''diamonds_project''))
                   DIAMOND_TOKEN (lit ''ExampleDiamond''))"
      by (simp only: ws dn render_def) simp
  qed
  from l f default_workspace_line m r g show ?thesis by blast
qed


theorem absent_env_file_defaults_witness:
  "\<exists>env_vars w1.
     load_env_file ''/d/.env''
       (new_world [(''/d/t.json'', lit ''{\"name\":\"__WORKSPACE_NAME__\"}'')]) = Inr (env_vars, w1)
     \<and> files w1 ''/d/.env'' = Some default_content
     \<and> map_of env_vars (lit ''WORKSPACE_NAME'') = Some (lit ''diamonds_project'')
     \<and> files (final_world (generate_devcontainer ascii_only flat_loads ''/d/t.json'' ''/d/o.json''
                 env_vars w1)) ''/d/o.json''
         = Some (lit ''{\"name\":\"diamonds_project\"}'')"
proof -
  let ?t = "lit ''{\"name\":\"__WORKSPACE_NAME__\"}''"
  let ?w = "new_world [(''/d/t.json'', ?t)]"
  have a: "\<not> path_exists ?w ''/d/.env''" "\<not> faulty ?w ''/d/.env''"
    by (simp_all add: path_exists_def new_world_def)
  from absent_env_file_defaults [OF a] obtain env_vars w1 where
    l: "load_env_file ''/d/.env'' ?w = Inr (env_vars, w1)"
    and f: "files w1 = (files ?w)(''/d/.env'' \<mapsto> default_content)" "faulty w1 = faulty ?w"
    and m: "map_of env_vars (lit ''WORKSPACE_NAME'') = Some (lit ''diamonds_project'')"
    and g: "\<forall>ucd json_loads template_path output_path template.
           read_text w1 template_path = Some template
           \<and> json_loads (py_replace (py_replace template WORKSPACE_TOKEN (lit ''diamonds_project''))
                 DIAMOND_TOKEN (lit ''ExampleDiamond'')) \<noteq> None
           \<and> \<not> faulty w1 output_path
           \<longrightarrow> files (final_world (generate_devcontainer ucd json_loads template_path output_path
                    env_vars w1)) output_path
               = Some (py_replace (py_replace template WORKSPACE_TOKEN (lit ''diamonds_project''))
                   DIAMOND_TOKEN (lit ''ExampleDiamond''))"
    by blast
  have u: "universal_newlines ?t = ?t" by code_simp
  have rd: "read_text w1 ''/d/t.json'' = Some ?t"
    using u by (simp add: read_text_def f new_world_def)
  have r: "py_replace (py_replace ?t WORKSPACE_TOKEN (lit ''diamonds_project''))
             DIAMOND_TOKEN (lit ''ExampleDiamond'') = lit ''{\"name\":\"diamonds_project\"}''"
    by code_simp
  have js: "flat_loads (lit ''{\"name\":\"diamonds_project\"}'') \<noteq> None" by code_simp
  have nf: "\<not> faulty w1 ''/d/o.json''" by (simp add: f new_world_def)
  from g [rule_format, of "''/d/t.json''" ?t flat_loads "''/d/o.json''" ascii_only] rd r js nf
  have "files (final_world (generate_devcontainer ascii_only flat_loads ''/d/t.json'' ''/d/o.json''
                 env_vars w1)) ''/d/o.json'' = Some (lit ''{\"name\":\"diamonds_project\"}'')"
    by simp
  moreover have "files w1 ''/d/.env'' = Some default_content" by (simp add: f)
  ultimately show ?thesis using l m by blast
qed

section \<open>The loaded mapping\<close>

lemma sublist_single: "sublist [a] s \<longleftrightarrow> a \<in> set s"
  by (induction s) (auto simp: sublist_Cons_right)

lemma spec_unquote_eq: "spec_unquote v = strip_quotes v"
  by (simp add: spec_unquote_def strip_quotes_cases)

lemma env_line_dict:
  "fst (env_line n l e w) =
     (case spec_assignment l of None \<Rightarrow> e | Some (k, v) \<Rightarrow> AList.update k v e)"
  by (simp add: env_line_def spec_assignment_def Let_def py_startswith_single py_contains_def
        sublist_single lit_def py_split1_def dict_set_def spec_unquote_eq)

lemma env_loop_dict:
  "fst (env_loop n ls e w) =
     foldl (\<lambda>e l. case spec_assignment l of None \<Rightarrow> e | Some (k, v) \<Rightarrow> AList.update k v e) e ls"
proof (induction ls arbitrary: n e w)
  case Nil
  show ?case by simp
next
  case (Cons l ls)
  obtain e' w' where step: "env_line n l e w = (e', w')" by (cases "env_line n l e w")
  with env_line_dict [of n l e w]
  have "e' = (case spec_assignment l of None \<Rightarrow> e | Some (k, v) \<Rightarrow> AList.update k v e)" by simp
  with Cons.IH [of "Suc n" e' w'] step show ?case by simp
qed

lemma foldl_assignments:
  "foldl (\<lambda>e l. case spec_assignment l of None \<Rightarrow> e | Some (k, v) \<Rightarrow> AList.update k v e) e ls =
   foldl (\<lambda>e kv. AList.update (fst kv) (snd kv) e) e (List.map_filter spec_assignment ls)"
  by (induction ls arbitrary: e) (auto simp: List.map_filter_simps split: option.splits)

lemma map_of_foldl_update:
  "map_of (foldl (\<lambda>e kv. AList.update (fst kv) (snd kv) e) e kvs) k =
     (if filter (\<lambda>kv. fst kv = k) kvs = [] then map_of e k
      else Some (snd (last (filter (\<lambda>kv. fst kv = k) kvs))))"
proof (induction kvs rule: rev_induct)
  case Nil
  show ?case by simp
next
  case (snoc kv kvs)
  show ?case
  proof (cases "fst kv = k")
    case True
    then show ?thesis by (simp add: update_conv')
  next
    case False
    with snoc show ?thesis by (simp add: update_conv')
  qed
qed

lemma spec_mapping_if:
  "spec_mapping ls k =
     (if filter (\<lambda>kv. fst kv = k) (List.map_filter spec_assignment ls) = [] then None
      else Some (snd (last (filter (\<lambda>kv. fst kv = k) (List.map_filter spec_assignment ls)))))"
  by (cases "filter (\<lambda>kv. fst kv = k) (List.map_filter spec_assignment ls)")
     (simp_all add: spec_mapping_def)

lemma distinct_foldl_update:
  "distinct (map fst e) \<Longrightarrow> distinct (map fst (foldl (\<lambda>e kv. AList.update (fst kv) (snd kv) e) e kvs))"
  by (induction kvs arbitrary: e) (simp_all add: distinct_update)

lemma env_loop_spec:
  "map_of (fst (env_loop n ls [] w)) k = spec_mapping ls k"
  "distinct (map fst (fst (env_loop n ls [] w)))"
  by (simp_all add: env_loop_dict foldl_assignments map_of_foldl_update spec_mapping_if
        distinct_foldl_update)


lemma spec_mapping_last_wins:
  assumes "spec_assignment l = Some (k, v)"
    and "\<forall>l'\<in>set post. \<forall>v'. spec_assignment l' \<noteq> Some (k, v')"
  shows "spec_mapping (pre @ l # post) k = Some v"
proof -
  have "filter (\<lambda>kv. fst kv = k) (List.map_filter spec_assignment post) = []"
    using assms(2) by (auto simp: List.map_filter_def filter_empty_conv)
  then show ?thesis
    using assms(1) by (simp add: spec_mapping_if List.map_filter_def)
qed

lemma spec_mapping_unbound:
  assumes "\<forall>l\<in>set ls. \<forall>v. spec_assignment l \<noteq> Some (k, v)"
  shows "spec_mapping ls k = None"
proof -
  have "filter (\<lambda>kv. fst kv = k) (List.map_filter spec_assignment ls) = []"
    using assms by (auto simp: List.map_filter_def filter_empty_conv)
  then show ?thesis by (simp add: spec_mapping_if)
qed

lemma load_env_file_present:
  assumes "read_text w env_path = Some text"
  shows "load_env_file env_path w = Inr (env_loop 1 (py_lines text) [] w)"
  using assms read_text_exists [OF assms] by (simp add: load_env_file_def)

text \<open>
  Claim C5. For every environment file that is there and can be read, the mapping the loader
  returns is the one the specification describes: every line of the form \<^verbatim>\<open>KEY=VALUE\<close>
  binds its trimmed key to its trimmed value without one layer of surrounding quotes,
  unless a later line binds the same key (the last line wins); empty lines, comment lines
  and lines without \<^verbatim>\<open>=\<close> bind nothing, so a key that no line gives is unbound. The keys
  of the mapping are distinct. The lines are those of the text as read.
\<close>

theorem loaded_mapping_is_last_wins:
  assumes "read_text w env_path = Some text"
  shows "\<exists>env_vars w1. load_env_file env_path w = Inr (env_vars, w1)
     \<and> distinct (map fst env_vars)
     \<and> (\<forall>k. map_of env_vars k = spec_mapping (py_lines text) k)
     \<and> (\<forall>pre l post k v.
           py_lines text = pre @ l # post \<and> spec_assignment l = Some (k, v)
           \<and> (\<forall>l'\<in>set post. \<forall>v'. spec_assignment l' \<noteq> Some (k, v'))
           \<longrightarrow> map_of env_vars k = Some v)
     \<and> (\<forall>k. (\<forall>l\<in>set (py_lines text). \<forall>v. spec_assignment l \<noteq> Some (k, v))
           \<longrightarrow> map_of env_vars k = None)"
proof -
  obtain env_vars w1 where e: "env_loop 1 (py_lines text) [] w = (env_vars, w1)"
    by (cases "env_loop 1 (py_lines text) [] w")
  with load_env_file_present [OF assms]
  have l: "load_env_file env_path w = Inr (env_vars, w1)" by simp
  from env_loop_spec [of 1 "py_lines text" w] e
  have m: "\<forall>k. map_of env_vars k = spec_mapping (py_lines text) k"
    and d: "distinct (map fst env_vars)" by simp_all
  have a: "\<forall>pre l post k v.
           py_lines text = pre @ l # post \<and> spec_assignment l = Some (k, v)
           \<and> (\<forall>l'\<in>set post. \<forall>v'. spec_assignment l' \<noteq> Some (k, v'))
           \<longrightarrow> map_of env_vars k = Some v"
    using m spec_mapping_last_wins by metis
  have b: "\<forall>k. (\<forall>l\<in>set (py_lines text). \<forall>v. spec_assignment l \<noteq> Some (k, v))
           \<longrightarrow> map_of env_vars k = None"
    using m spec_mapping_unbound by metis
  from l d m a b show ?thesis by blast
qed

theorem loaded_mapping_is_last_wins_witness:
  "\<exists>env_vars w1.
     load_env_file ''/d/.env''
       (new_world [(''/d/.env'',
          lit ''# c'' @ [10] @ lit ''A = 1'' @ [13, 10] @ [10] @ lit ''B=\"x y\"'' @ [10]
          @ lit '' A='' @ [39] @ lit ''2'' @ [39, 10] @ lit ''bad line'')]) = Inr (env_vars, w1)
     \<and> map_of env_vars (lit ''A'') = Some (lit ''2'')
     \<and> map_of env_vars (lit ''B'') = Some (lit ''x y'')
     \<and> map_of env_vars (lit ''bad line'') = None"
proof -
  let ?raw = "lit ''# c'' @ [10] @ lit ''A = 1'' @ [13, 10] @ [10] @ lit ''B=\"x y\"'' @ [10]
          @ lit '' A='' @ [39] @ lit ''2'' @ [39, 10] @ lit ''bad line''"
  let ?w = "new_world [(''/d/.env'', ?raw)]"
  have rd: "read_text ?w ''/d/.env'' = Some (universal_newlines ?raw)"
    by (simp add: read_text_def new_world_def)
  from loaded_mapping_is_last_wins [OF rd] obtain env_vars w1 where
    l: "load_env_file ''/d/.env'' ?w = Inr (env_vars, w1)"
    and m: "\<forall>k. map_of env_vars k = spec_mapping (py_lines (universal_newlines ?raw)) k"
    and a: "\<forall>pre l post k v.
           py_lines (universal_newlines ?raw) = pre @ l # post \<and> spec_assignment l = Some (k, v)
           \<and> (\<forall>l'\<in>set post. \<forall>v'. spec_assignment l' \<noteq> Some (k, v'))
           \<longrightarrow> map_of env_vars k = Some v"
    and b: "\<forall>k. (\<forall>l\<in>set (py_lines (universal_newlines ?raw)). \<forall>v. spec_assignment l \<noteq> Some (k, v))
           \<longrightarrow> map_of env_vars k = None"
    by blast
  note sa_defs = spec_assignment_def spec_unquote_def py_strip_def py_isspace_def lit_def
  have ls: "py_lines (universal_newlines ?raw) =
      [lit ''# c'' @ [10], lit ''A = 1'' @ [10], [10], lit ''B=\"x y\"'' @ [10],
       lit '' A='' @ [39] @ lit ''2'' @ [39, 10], lit ''bad line'']"
    by (simp add: lit_def py_lines_def)
  have s0: "spec_assignment (lit ''# c'' @ [10]) = None" by (simp add: sa_defs)
  have s1: "spec_assignment (lit ''A = 1'' @ [10]) = Some (lit ''A'', lit ''1'')"
    by (simp add: sa_defs)
  have s2: "spec_assignment [10] = None" by (simp add: sa_defs)
  have s3: "spec_assignment (lit ''B=\"x y\"'' @ [10]) = Some (lit ''B'', lit ''x y'')"
    by (simp add: sa_defs)
  have s4: "spec_assignment (lit '' A='' @ [39] @ lit ''2'' @ [39, 10]) = Some (lit ''A'', lit ''2'')"
    by (simp add: sa_defs)
  have s5: "spec_assignment (lit ''bad line'') = None" by (simp add: sa_defs)
  have ne: "lit ''A'' \<noteq> lit ''B''" by (simp add: lit_def)
  have A: "map_of env_vars (lit ''A'') = Some (lit ''2'')"
    using a [rule_format, of "[lit ''# c'' @ [10], lit ''A = 1'' @ [10], [10], lit ''B=\"x y\"'' @ [10]]"
        "lit '' A='' @ [39] @ lit ''2'' @ [39, 10]" "[lit ''bad line'']" "lit ''A''" "lit ''2''"]
      ls s4 s5 by simp
  have B: "map_of env_vars (lit ''B'') = Some (lit ''x y'')"
    using a [rule_format, of "[lit ''# c'' @ [10], lit ''A = 1'' @ [10], [10]]"
        "lit ''B=\"x y\"'' @ [10]" "[lit '' A='' @ [39] @ lit ''2'' @ [39, 10], lit ''bad line'']"
        "lit ''B''" "lit ''x y''"]
      ls s3 s4 s5 ne by simp
  have pc: "\<forall>l\<in>set (py_lines (universal_newlines ?raw)).
              \<forall>v. spec_assignment l \<noteq> Some (lit ''bad line'', v)"
    unfolding ls using s0 s1 s2 s3 s4 s5 by (simp add: lit_def)
  have C: "map_of env_vars (lit ''bad line'') = None"
    using b [THEN spec, of "lit ''bad line''", THEN mp, OF pc] .
  from l A B C show ?thesis by blast
qed

section \<open>Writing and reading back\<close>

lemma universal_newlines_no_cr: "13 \<notin> set (universal_newlines s)"
  by (induction s rule: universal_newlines.induct) auto

lemma universal_newlines_id: "13 \<notin> set s \<Longrightarrow> universal_newlines s = s"
  by (induction s rule: universal_newlines.induct) auto

lemma set_py_strip: "set (py_strip s) \<subseteq> set s"
proof -
  have "set (dropWhile py_isspace (rev (dropWhile py_isspace s))) \<subseteq> set (rev (dropWhile py_isspace s))"
    by (meson set_dropWhileD subsetI)
  also have "\<dots> \<subseteq> set s" using set_dropWhileD by fastforce
  finally show ?thesis by (simp add: py_strip_def)
qed

lemma set_tl_subset: "set (tl xs) \<subseteq> set xs"
  by (cases xs) auto

lemma set_butlast_subset: "set (butlast xs) \<subseteq> set xs"
  by (meson in_set_butlastD subsetI)

lemma set_spec_unquote: "set (spec_unquote v) \<subseteq> set v"
proof -
  have "set (butlast (tl v)) \<subseteq> set v"
    using set_butlast_subset [of "tl v"] set_tl_subset [of v] by blast
  then show ?thesis unfolding spec_unquote_def by (simp only: split: if_split) blast
qed

lemma spec_assignment_value_chars:
  assumes "spec_assignment l = Some (k, v)"
  shows "set v \<subseteq> set l"
proof -
  let ?line = "py_strip l"
  let ?rest = "tl (dropWhile (\<lambda>c. c \<noteq> 61) ?line)"
  from assms have v: "v = spec_unquote (py_strip ?rest)"
    by (auto simp: spec_assignment_def Let_def split: if_splits)
  have "set ?rest \<subseteq> set (dropWhile (\<lambda>c. c \<noteq> 61) ?line)"
    by (rule set_tl_subset)
  also have "\<dots> \<subseteq> set ?line" by (meson set_dropWhileD subsetI)
  also have "\<dots> \<subseteq> set l" by (rule set_py_strip)
  finally have "set ?rest \<subseteq> set l" .
  with set_py_strip [of ?rest] set_spec_unquote [of "py_strip ?rest"] v
  show ?thesis by blast
qed

lemma lines_from_chars: "l \<in> set (lines_from cur s) \<Longrightarrow> set l \<subseteq> set cur \<union> set s"
  by (induction s arbitrary: cur) (fastforce split: if_splits)+

lemma py_lines_chars: "l \<in> set (py_lines s) \<Longrightarrow> set l \<subseteq> set s"
  using lines_from_chars [of l "[]" s] by (simp add: py_lines_def)

lemma update_values: "(k', v') \<in> set (AList.update k v e) \<Longrightarrow> v' = v \<or> (k', v') \<in> set e"
  by (induction e) (auto split: if_splits)

lemma env_loop_values:
  assumes "\<forall>l\<in>set ls. c \<notin> set l" and "\<forall>(k, v)\<in>set e. c \<notin> set v"
  shows "\<forall>(k, v)\<in>set (fst (env_loop n ls e w)). c \<notin> set v"
  using assms
proof (induction ls arbitrary: n e w)
  case Nil
  then show ?case by simp
next
  case (Cons l ls)
  obtain e' w' where step: "env_line n l e w = (e', w')" by (cases "env_line n l e w")
  with env_line_dict [of n l e w]
  have e': "e' = (case spec_assignment l of None \<Rightarrow> e | Some (k, v) \<Rightarrow> AList.update k v e)" by simp
  have "\<forall>(k, v)\<in>set e'. c \<notin> set v"
  proof (cases "spec_assignment l")
    case None
    with e' Cons.prems(2) show ?thesis by simp
  next
    case (Some kv)
    obtain k v where kv: "kv = (k, v)" by (cases kv)
    from spec_assignment_value_chars [of l k v] Some kv Cons.prems(1) have "c \<notin> set v" by auto
    with e' Some kv Cons.prems(2) show ?thesis by (auto dest: update_values)
  qed
  with Cons.IH [of e' "Suc n" w'] Cons.prems(1) step show ?case by simp
qed

lemma load_env_file_no_cr:
  assumes "load_env_file env_path w = Inr (env_vars, w1)"
  shows "\<forall>(k, v)\<in>set env_vars. 13 \<notin> set v"
proof -
  from assms obtain w0 body where rd: "read_text w0 env_path = Some body"
    and e: "env_loop 1 (py_lines body) [] w0 = (env_vars, w1)"
    by (auto simp: load_env_file_def split: if_splits sum.splits option.splits)
  from rd have "13 \<notin> set body"
    using universal_newlines_no_cr by (auto simp: read_text_def split: if_splits)
  then have "\<forall>l\<in>set (py_lines body). 13 \<notin> set l" using py_lines_chars by blast
  from env_loop_values [OF this, of "[]" 1 w0] e show ?thesis by simp
qed

lemma set_replace_scan: "set (replace_scan old new s) \<subseteq> set new \<union> set s"
proof (induction old new s rule: replace_scan.induct)
  case (1 old new)
  show ?case by simp
next
  case (2 old new c cs)
  show ?case
  proof (cases "old \<noteq> [] \<and> prefix old (c # cs)")
    case True
    have "set (drop (length old - 1) cs) \<subseteq> set cs" by (rule set_drop_subset)
    with 2(1) [OF True] True show ?thesis by auto
  next
    case False
    with 2(2) [OF False] show ?thesis by auto
  qed
qed

lemma set_py_replace: "set (py_replace s old new) \<subseteq> set new \<union> set s"
  using set_replace_scan [of old new s] by (auto simp: py_replace_def)

lemma render_chars:
  "set (render template ws dn) \<subseteq> set template \<union> set ws \<union> set dn"
  using set_py_replace [of "py_replace template WORKSPACE_TOKEN ws" DIAMOND_TOKEN dn]
        set_py_replace [of template WORKSPACE_TOKEN ws]
  by (auto simp: render_def)

lemma dict_get_chars:
  assumes "\<forall>(k, v)\<in>set e. c \<notin> set v" and "c \<notin> set d"
  shows "c \<notin> set (dict_get e k d)"
  using assms by (auto simp: dict_get_def split: option.splits dest!: map_of_SomeD)

lemma generate_devcontainer_Inr:
  assumes "generate_devcontainer ucd json_loads template_path output_path env_vars w = Inr ((), w')"
  shows "\<exists>template j. read_text w template_path = Some template
     \<and> json_loads (render template (workspace_name_of env_vars) (diamond_name_of env_vars)) = Some j
     \<and> files w' = (files w)(output_path \<mapsto>
          render template (workspace_name_of env_vars) (diamond_name_of env_vars))
     \<and> faulty w' = faulty w \<and> \<not> faulty w output_path"
  using assms
  by (auto simp: generate_devcontainer_def Let_def write_text_def
           split: if_splits option.splits sum.splits
           dest!: environ_set_world export_env_files)


lemma rendered_text_no_cr:
  assumes "load_env_file env_path w0 = Inr (env_vars, w1)"
    and "read_text w template_path = Some template"
  shows "13 \<notin> set (render template (workspace_name_of env_vars) (diamond_name_of env_vars))"
proof -
  note e = load_env_file_no_cr [OF assms(1)]
  have "13 \<notin> set (workspace_name_of env_vars)"
    unfolding workspace_name_of_def by (rule dict_get_chars [OF e]) (simp add: lit_def)
  moreover have "13 \<notin> set (diamond_name_of env_vars)"
    unfolding diamond_name_of_def by (rule dict_get_chars [OF e]) (simp add: lit_def)
  moreover from assms(2) have "13 \<notin> set template"
    using universal_newlines_no_cr by (auto simp: read_text_def split: if_splits)
  ultimately show ?thesis
    using render_chars [of template "workspace_name_of env_vars" "diamond_name_of env_vars"]
    by blast
qed

text \<open>
  Claim C8. Round trip: when the text rendered from a loaded mapping parses as JSON and is
  written to the output path, reading the file again gives the same text, and parsing it
  gives the value that the parse before the write gave. (The rendered text holds no carriage
  return, since the template and the lines of the environment file were read with their
  line ends translated; so the translation on reading back changes nothing.)
\<close>

theorem written_file_round_trip:
  assumes "load_env_file env_path w0 = Inr (env_vars, w1)"
    and "generate_devcontainer ucd json_loads template_path output_path env_vars w = Inr ((), w')"
  shows "\<exists>template j.
       read_text w template_path = Some template
     \<and> json_loads (render template (workspace_name_of env_vars) (diamond_name_of env_vars)) = Some j
     \<and> files w' output_path
         = Some (render template (workspace_name_of env_vars) (diamond_name_of env_vars))
     \<and> read_text w' output_path
         = Some (render template (workspace_name_of env_vars) (diamond_name_of env_vars))
     \<and> load_json json_loads w' output_path = Some j
     \<and> load_json json_loads (log BLUE Verifying (log NC Blank w')) output_path = Some j"
proof -
  from generate_devcontainer_Inr [OF assms(2)] obtain template j where
    rd: "read_text w template_path = Some template"
    and js: "json_loads (render template (workspace_name_of env_vars) (diamond_name_of env_vars)) = Some j"
    and f: "files w' = (files w)(output_path \<mapsto>
          render template (workspace_name_of env_vars) (diamond_name_of env_vars))"
    and fa: "faulty w' = faulty w" "\<not> faulty w output_path"
    by blast
  let ?out = "render template (workspace_name_of env_vars) (diamond_name_of env_vars)"
  from rendered_text_no_cr [OF assms(1) rd] have "universal_newlines ?out = ?out"
    by (rule universal_newlines_id)
  with f fa have rb: "read_text w' output_path = Some ?out"
    by (simp add: read_text_def)
  with js have "load_json json_loads w' output_path = Some j"
    and "load_json json_loads (log BLUE Verifying (log NC Blank w')) output_path = Some j"
    by (simp_all add: load_json_def)
  with rd js f rb show ?thesis by auto
qed

theorem written_file_round_trip_witness:
  "\<exists>env_vars w1 w'.
     load_env_file ''/d/.env''
       (new_world [(''/d/.env'', lit ''DIAMOND_NAME=Gem'' @ [13, 10]),
                   (''/d/t.json'', lit ''{\"name\":\"__WORKSPACE_NAME__\",\"service\":\"__DIAMOND_NAME__\"}'')])
       = Inr (env_vars, w1)
     \<and> generate_devcontainer ascii_only flat_loads ''/d/t.json'' ''/d/o.json'' env_vars w1 = Inr ((), w')
     \<and> flat_loads (lit ''{\"name\":\"diamonds_project\",\"service\":\"Gem\"}'')
         = Some (JObject [(lit ''name'', JString (lit ''diamonds_project'')),
                          (lit ''service'', JString (lit ''Gem''))])
     \<and> files w' ''/d/o.json'' = Some (lit ''{\"name\":\"diamonds_project\",\"service\":\"Gem\"}'')
     \<and> load_json flat_loads w' ''/d/o.json''
         = Some (JObject [(lit ''name'', JString (lit ''diamonds_project'')),
                          (lit ''service'', JString (lit ''Gem''))])"
proof -
  let ?t = "lit ''{\"name\":\"__WORKSPACE_NAME__\",\"service\":\"__DIAMOND_NAME__\"}''"
  let ?w = "new_world [(''/d/.env'', lit ''DIAMOND_NAME=Gem'' @ [13, 10]), (''/d/t.json'', ?t)]"
  let ?env = "[(lit ''DIAMOND_NAME'', lit ''Gem'')]"
  let ?o = "lit ''{\"name\":\"diamonds_project\",\"service\":\"Gem\"}''"
  let ?j = "JObject [(lit ''name'', JString (lit ''diamonds_project'')),
                          (lit ''service'', JString (lit ''Gem''))]"
  have h1: "load_env_file ''/d/.env'' ?w = Inr (?env, ?w)"
    by (simp add: run_defs)
  have ws: "workspace_name_of ?env = lit ''diamonds_project''" "diamond_name_of ?env = lit ''Gem''"
    by (simp_all add: workspace_name_of_def diamond_name_of_def dict_get_def lit_def)
  have v: "valid_workspace_name ascii_only (workspace_name_of ?env)"
    by (simp add: ws valid_default_workspace_name)
  have rd: "read_text ?w ''/d/t.json'' = Some ?t" by (simp add: run_defs)
  have r: "render ?t (lit ''diamonds_project'') (lit ''Gem'') = ?o"
    by (simp add: render_def py_replace_def WORKSPACE_TOKEN_def DIAMOND_TOKEN_def lit_def)
  have p: "flat_loads ?o = Some ?j"
    by (simp add: flat_loads_def lit_def)
  have js: "flat_loads (render ?t (workspace_name_of ?env) (diamond_name_of ?env)) = Some ?j"
    by (simp only: ws r p)
  have nf: "\<not> faulty ?w ''/d/o.json''" by (simp add: new_world_def)
  have dn: "0 \<notin> set (diamond_name_of ?env)" by (simp add: ws) (simp add: lit_def)
  have ok: "\<forall>(k, v)\<in>set ?env. k \<noteq> [] \<and> 61 \<notin> set k \<and> 0 \<notin> set k \<and> 0 \<notin> set v"
    by (simp add: lit_def)
  from generate_returns [where json_loads = flat_loads, OF v rd js nf dn ok]
  obtain w' where g: "generate_devcontainer ascii_only flat_loads ''/d/t.json'' ''/d/o.json'' ?env ?w
      = Inr ((), w')" by blast
  from written_file_round_trip [OF h1 g] obtain template j where
    "read_text ?w ''/d/t.json'' = Some template"
    and "flat_loads (render template (workspace_name_of ?env) (diamond_name_of ?env)) = Some j"
    and "files w' ''/d/o.json'' = Some (render template (workspace_name_of ?env) (diamond_name_of ?env))"
    and "load_json flat_loads w' ''/d/o.json'' = Some j"
    by blast
  with rd js ws r have "files w' ''/d/o.json'' = Some ?o" and "load_json flat_loads w' ''/d/o.json'' = Some ?j"
    by simp_all
  with h1 g p show ?thesis by blast
qed

section \<open>The exit status\<close>

lemma update_pairs:
  "(k', v') \<in> set (AList.update k v e) \<Longrightarrow> (k' = k \<and> v' = v) \<or> (k', v') \<in> set e"
  by (induction e) (auto split: if_splits)

lemma spec_assignment_key_chars:
  assumes "spec_assignment l = Some (k, v)"
  shows "61 \<notin> set k"
proof -
  from assms have "k = py_strip (takeWhile (\<lambda>c. c \<noteq> 61) (py_strip l))"
    by (auto simp: spec_assignment_def Let_def split: if_splits)
  with set_py_strip [of "takeWhile (\<lambda>c. c \<noteq> 61) (py_strip l)"]
  show ?thesis by (auto dest: set_takeWhileD)
qed

lemma env_loop_keys:
  assumes "\<forall>(k, v)\<in>set e. 61 \<notin> set k"
  shows "\<forall>(k, v)\<in>set (fst (env_loop n ls e w)). 61 \<notin> set k"
  using assms
proof (induction ls arbitrary: n e w)
  case Nil
  then show ?case by simp
next
  case (Cons l ls)
  obtain e' w' where step: "env_line n l e w = (e', w')" by (cases "env_line n l e w")
  with env_line_dict [of n l e w]
  have e': "e' = (case spec_assignment l of None \<Rightarrow> e | Some (k, v) \<Rightarrow> AList.update k v e)" by simp
  have "\<forall>(k, v)\<in>set e'. 61 \<notin> set k"
  proof (cases "spec_assignment l")
    case None
    with e' Cons.prems show ?thesis by simp
  next
    case (Some kv)
    obtain k v where kv: "kv = (k, v)" by (cases kv)
    from spec_assignment_key_chars [of l k v] Some kv have "61 \<notin> set k" by simp
    with e' Some kv Cons.prems show ?thesis by (auto dest: update_pairs)
  qed
  with Cons.IH [of e' "Suc n" w'] step show ?case by simp
qed

lemma load_env_file_keys:
  assumes "load_env_file env_path w = Inr (env_vars, w1)"
  shows "\<forall>(k, v)\<in>set env_vars. 61 \<notin> set k"
proof -
  from assms obtain w0 body where "env_loop 1 (py_lines body) [] w0 = (env_vars, w1)"
    by (auto simp: load_env_file_def split: if_splits sum.splits option.splits)
  with env_loop_keys [of "[]" 1 "py_lines body" w0] show ?thesis by simp
qed

lemma script_after_sys_exit:
  assumes "load_env_file (dir @ ''/.env'') (banner w) = Inr (env_vars, w1)"
    and "generate_devcontainer ucd json_loads (dir @ ''/devcontainer.template.json'')
           (dir @ ''/devcontainer.json'') env_vars
           (log BLUE Generating (log NC Blank (log GREEN (Loaded (length env_vars)) w1)))
         = Inl (SysExit n, w')"
  shows "script ucd json_loads dir w = (n, w')"
  using assms by (simp add: script_def main_def Let_def)

lemma script_after_return:
  assumes "load_env_file (dir @ ''/.env'') (banner w) = Inr (env_vars, w1)"
    and "generate_devcontainer ucd json_loads (dir @ ''/devcontainer.template.json'')
           (dir @ ''/devcontainer.json'') env_vars
           (log BLUE Generating (log NC Blank (log GREEN (Loaded (length env_vars)) w1)))
         = Inr ((), w3)"
  shows "fst (script ucd json_loads dir w) = 0"
proof -
  obtain ok w4 where "verify_generated_config json_loads (dir @ ''/devcontainer.json'')
           (log BLUE Verifying (log NC Blank w3)) = (ok, w4)"
    by (cases "verify_generated_config json_loads (dir @ ''/devcontainer.json'')
           (log BLUE Verifying (log NC Blank w3))")
  from main_after_generate [OF assms this] show ?thesis by simp
qed

lemma exportable_dict_set:
  assumes "\<forall>(k, v)\<in>set e. k \<noteq> [] \<and> 61 \<notin> set k \<and> 0 \<notin> set k \<and> 0 \<notin> set v"
    and "0 \<notin> set d"
  shows "\<forall>(k, v)\<in>set (dict_set e (lit ''DIAMOND_NAME'') d).
           k \<noteq> [] \<and> 61 \<notin> set k \<and> 0 \<notin> set k \<and> 0 \<notin> set v"
proof -
  have "lit ''DIAMOND_NAME'' \<noteq> [] \<and> 61 \<notin> set (lit ''DIAMOND_NAME'') \<and> 0 \<notin> set (lit ''DIAMOND_NAME'')"
    by (simp add: lit_def)
  with assms show ?thesis unfolding dict_set_def by (auto dest!: update_pairs)
qed

lemma exportable_diamond_name:
  assumes "\<forall>(k, v)\<in>set e. k \<noteq> [] \<and> 61 \<notin> set k \<and> 0 \<notin> set k \<and> 0 \<notin> set v"
  shows "0 \<notin> set (diamond_name_of e)"
  unfolding diamond_name_of_def
proof (rule dict_get_chars)
  show "\<forall>(k, v)\<in>set e. 0 \<notin> set v" using assms by auto
  show "0 \<notin> set (lit ''ExampleDiamond'')" by (simp add: lit_def)
qed


text \<open>
  Claim C10, as amended. Only the workspace name goes through the identifier check; the
  diamond name is substituted as it is, whatever its characters. For every value \<open>d\<close> of
  \<^verbatim>\<open>DIAMOND_NAME\<close> the run passes the check exactly as it does without it; with a readable
  template and a writable output path it ends in \<^verbatim>\<open>sys.exit(1)\<close> before the file is written
  when the substituted text fails to parse as JSON, and writes that text otherwise. When in
  addition every key and value is one that \<^verbatim>\<open>os.environ\<close> accepts (no empty key, no \<^verbatim>\<open>=\<close>
  in a key, no character 0 in a key or a value), the run aborts only if the parse fails:
  the generation returns when the text parses, and the script ends with status 1 when the
  parse fails and with status 0 when it succeeds.
\<close>

theorem diamond_name_not_gated:
  assumes "valid_workspace_name ucd (workspace_name_of env_vars)"
    and "read_text w template_path = Some template"
    and "\<not> faulty w output_path"
  shows "valid_workspace_name ucd (workspace_name_of (dict_set env_vars (lit ''DIAMOND_NAME'') d))
       \<and> (json_loads (render template (workspace_name_of env_vars) d) = None
          \<longrightarrow> generate_devcontainer ucd json_loads template_path output_path
                (dict_set env_vars (lit ''DIAMOND_NAME'') d) w
              = Inl (SysExit 1, log RED InvalidJson w))
       \<and> (json_loads (render template (workspace_name_of env_vars) d) \<noteq> None
          \<longrightarrow> files (final_world (generate_devcontainer ucd json_loads template_path output_path
                  (dict_set env_vars (lit ''DIAMOND_NAME'') d) w)) output_path
              = Some (render template (workspace_name_of env_vars) d))
       \<and> (json_loads (render template (workspace_name_of env_vars) d) \<noteq> None
           \<and> 0 \<notin> set d
           \<and> (\<forall>(k, v)\<in>set env_vars. k \<noteq> [] \<and> 61 \<notin> set k \<and> 0 \<notin> set k \<and> 0 \<notin> set v)
          \<longrightarrow> (\<exists>w'. generate_devcontainer ucd json_loads template_path output_path
                  (dict_set env_vars (lit ''DIAMOND_NAME'') d) w = Inr ((), w')))
       \<and> (load_env_file (dir @ ''/.env'') (banner w0) = Inr (e, w1)
           \<and> valid_workspace_name ucd (workspace_name_of e)
           \<and> read_text w1 (dir @ ''/devcontainer.template.json'') = Some t
           \<and> \<not> faulty w1 (dir @ ''/devcontainer.json'')
           \<and> (\<forall>(k, v)\<in>set e. k \<noteq> [] \<and> 0 \<notin> set k \<and> 0 \<notin> set v)
          \<longrightarrow> fst (script ucd json_loads dir w0)
                = (if json_loads (render t (workspace_name_of e) (diamond_name_of e)) = None
                   then 1 else 0))"
proof (intro conjI impI)
  let ?env = "dict_set env_vars (lit ''DIAMOND_NAME'') d"
  show v: "valid_workspace_name ucd (workspace_name_of ?env)"
    using assms(1) by (simp add: names_after_dict_set)
  {
    assume "json_loads (render template (workspace_name_of env_vars) d) = None"
    then have "json_loads (render template (workspace_name_of ?env) (diamond_name_of ?env)) = None"
      by (simp add: names_after_dict_set)
    from generate_invalid_json_log [where json_loads = json_loads and env_vars = ?env, OF v assms(2) this]
    show "generate_devcontainer ucd json_loads template_path output_path ?env w
              = Inl (SysExit 1, log RED InvalidJson w)" .
  }
  {
    assume "json_loads (render template (workspace_name_of env_vars) d) \<noteq> None"
    then obtain j where
      "json_loads (render template (workspace_name_of ?env) (diamond_name_of ?env)) = Some j"
      by (auto simp: names_after_dict_set)
    from generate_writes [where json_loads = json_loads and env_vars = ?env, OF v assms(2) this assms(3)]
    show "files (final_world (generate_devcontainer ucd json_loads template_path output_path ?env w))
            output_path = Some (render template (workspace_name_of env_vars) d)"
      by (simp add: names_after_dict_set)
  }
  {
    assume a: "json_loads (render template (workspace_name_of env_vars) d) \<noteq> None
           \<and> 0 \<notin> set d
           \<and> (\<forall>(k, v)\<in>set env_vars. k \<noteq> [] \<and> 61 \<notin> set k \<and> 0 \<notin> set k \<and> 0 \<notin> set v)"
    then obtain j where
      js: "json_loads (render template (workspace_name_of ?env) (diamond_name_of ?env)) = Some j"
      by (auto simp: names_after_dict_set)
    from a have dn: "0 \<notin> set (diamond_name_of ?env)" by (simp add: names_after_dict_set)
    from a have "\<forall>(k, v)\<in>set ?env. k \<noteq> [] \<and> 61 \<notin> set k \<and> 0 \<notin> set k \<and> 0 \<notin> set v"
      by (intro exportable_dict_set) simp_all
    from generate_returns [where json_loads = json_loads and env_vars = ?env,
        OF v assms(2) js assms(3) dn this]
    show "\<exists>w'. generate_devcontainer ucd json_loads template_path output_path ?env w = Inr ((), w')"
      by blast
  }
  {
    assume a: "load_env_file (dir @ ''/.env'') (banner w0) = Inr (e, w1)
           \<and> valid_workspace_name ucd (workspace_name_of e)
           \<and> read_text w1 (dir @ ''/devcontainer.template.json'') = Some t
           \<and> \<not> faulty w1 (dir @ ''/devcontainer.json'')
           \<and> (\<forall>(k, v)\<in>set e. k \<noteq> [] \<and> 0 \<notin> set k \<and> 0 \<notin> set v)"
    let ?w2 = "log BLUE Generating (log NC Blank (log GREEN (Loaded (length e)) w1))"
    from a have l: "load_env_file (dir @ ''/.env'') (banner w0) = Inr (e, w1)"
      and ve: "valid_workspace_name ucd (workspace_name_of e)" by simp_all
    from a have rd: "read_text ?w2 (dir @ ''/devcontainer.template.json'') = Some t"
      and nf: "\<not> faulty ?w2 (dir @ ''/devcontainer.json'')" by simp_all
    from a load_env_file_keys [OF l]
    have ex: "\<forall>(k, v)\<in>set e. k \<noteq> [] \<and> 61 \<notin> set k \<and> 0 \<notin> set k \<and> 0 \<notin> set v" by fastforce
    show "fst (script ucd json_loads dir w0)
                = (if json_loads (render t (workspace_name_of e) (diamond_name_of e)) = None
                   then 1 else 0)"
    proof (cases "json_loads (render t (workspace_name_of e) (diamond_name_of e))")
      case None
      from generate_invalid_json_log [where json_loads = json_loads and env_vars = e, OF ve rd None]
      have "generate_devcontainer ucd json_loads (dir @ ''/devcontainer.template.json'')
              (dir @ ''/devcontainer.json'') e ?w2 = Inl (SysExit 1, log RED InvalidJson ?w2)" .
      from script_after_sys_exit [OF l this] None show ?thesis by simp
    next
      case (Some j)
      from generate_returns [where json_loads = json_loads and env_vars = e,
          OF ve rd Some nf exportable_diamond_name [OF ex] ex]
      obtain w3 where "generate_devcontainer ucd json_loads (dir @ ''/devcontainer.template.json'')
              (dir @ ''/devcontainer.json'') e ?w2 = Inr ((), w3)" by blast
      from script_after_return [OF l this] Some show ?thesis by simp
    qed
  }
qed


theorem diamond_name_not_gated_witness:
  "generate_devcontainer ascii_only flat_loads ''/d/t.json'' ''/d/o.json''
      (dict_set [] (lit ''DIAMOND_NAME'') (lit ''a\"b''))
      (new_world [(''/d/t.json'', lit ''{\"service\":\"__DIAMOND_NAME__\"}'')])
     = Inl (SysExit 1, log RED InvalidJson
         (new_world [(''/d/t.json'', lit ''{\"service\":\"__DIAMOND_NAME__\"}'')]))
   \<and> files (final_world (generate_devcontainer ascii_only flat_loads ''/d/t.json'' ''/d/o.json''
      (dict_set [] (lit ''DIAMOND_NAME'') (lit ''My Diamond!''))
      (new_world [(''/d/t.json'', lit ''{\"service\":\"__DIAMOND_NAME__\"}'')]))) ''/d/o.json''
     = Some (lit ''{\"service\":\"My Diamond!\"}'')
   \<and> (\<exists>w'. generate_devcontainer ascii_only flat_loads ''/d/t.json'' ''/d/o.json''
      (dict_set [] (lit ''DIAMOND_NAME'') (lit ''My Diamond!''))
      (new_world [(''/d/t.json'', lit ''{\"service\":\"__DIAMOND_NAME__\"}'')]) = Inr ((), w'))
   \<and> fst (script ascii_only flat_loads ''/d''
        (new_world [(''/d/.env'', lit ''DIAMOND_NAME=My Diamond!'' @ [10]),
                    (''/d/devcontainer.template.json'', lit ''{\"service\":\"__DIAMOND_NAME__\"}'')])) = 0
   \<and> fst (script ascii_only flat_loads ''/d''
        (new_world [(''/d/.env'', lit ''DIAMOND_NAME=a\"b'' @ [10]),
                    (''/d/devcontainer.template.json'', lit ''{\"service\":\"__DIAMOND_NAME__\"}'')])) = 1"
proof -
  let ?t = "lit ''{\"service\":\"__DIAMOND_NAME__\"}''"
  let ?w = "new_world [(''/d/t.json'', ?t)]"
  let ?wa = "new_world [(''/d/.env'', lit ''DIAMOND_NAME=My Diamond!'' @ [10]),
                    (''/d/devcontainer.template.json'', ?t)]"
  let ?wb = "new_world [(''/d/.env'', lit ''DIAMOND_NAME=a\"b'' @ [10]),
                    (''/d/devcontainer.template.json'', ?t)]"
  let ?ea = "[(lit ''DIAMOND_NAME'', lit ''My Diamond!'')]"
  let ?eb = "[(lit ''DIAMOND_NAME'', lit ''a\"b'')]"
  note ev = render_def py_replace_def WORKSPACE_TOKEN_def DIAMOND_TOKEN_def flat_loads_def
    workspace_name_of_def diamond_name_of_def dict_get_def lit_def
  have v: "valid_workspace_name ascii_only (workspace_name_of [])"
    by (simp add: workspace_name_of_def dict_get_def valid_default_workspace_name)
  have h1: "read_text ?w ''/d/t.json'' = Some ?t" by (simp add: run_defs)
  have h2: "\<not> faulty ?w ''/d/o.json''" by (simp add: new_world_def)
  have bad: "flat_loads (render ?t (workspace_name_of []) (lit ''a\"b'')) = None"
    by (simp add: ev)
  have r: "render ?t (workspace_name_of []) (lit ''My Diamond!'') = lit ''{\"service\":\"My Diamond!\"}''"
    by (simp add: ev)
  have good: "flat_loads (render ?t (workspace_name_of []) (lit ''My Diamond!'')) \<noteq> None"
    by (simp add: ev)
  have ok: "0 \<notin> set (lit ''My Diamond!'')
     \<and> (\<forall>(k, v)\<in>set ([] :: pydict). k \<noteq> [] \<and> 61 \<notin> set k \<and> 0 \<notin> set k \<and> 0 \<notin> set v)"
    by (simp add: lit_def)
  note A = diamond_name_not_gated [where json_loads = flat_loads and d = "lit ''a\"b''"
      and dir = "''/d''" and ?w0.0 = ?wb and e = ?eb and ?w1.0 = "banner ?wb" and t = ?t, OF v h1 h2]
  note B = diamond_name_not_gated [where json_loads = flat_loads and d = "lit ''My Diamond!''"
      and dir = "''/d''" and ?w0.0 = ?wa and e = ?ea and ?w1.0 = "banner ?wa" and t = ?t, OF v h1 h2]
  have la: "load_env_file (''/d'' @ ''/.env'') (banner ?wa) = Inr (?ea, banner ?wa)"
    by (simp add: run_defs)
  have lb: "load_env_file (''/d'' @ ''/.env'') (banner ?wb) = Inr (?eb, banner ?wb)"
    by (simp add: run_defs)
  have va: "valid_workspace_name ascii_only (workspace_name_of ?ea)"
    and vb: "valid_workspace_name ascii_only (workspace_name_of ?eb)"
    using valid_default_workspace_name [of ascii_only]
    by (simp_all add: workspace_name_of_def dict_get_def lit_def)
  have ra: "read_text (banner ?wa) (''/d'' @ ''/devcontainer.template.json'') = Some ?t"
    and rb: "read_text (banner ?wb) (''/d'' @ ''/devcontainer.template.json'') = Some ?t"
    by (simp_all add: run_defs)
  have fa: "\<not> faulty (banner ?wa) (''/d'' @ ''/devcontainer.json'')"
    and fb: "\<not> faulty (banner ?wb) (''/d'' @ ''/devcontainer.json'')"
    by (simp_all add: run_defs)
  have xa: "\<forall>(k, v)\<in>set ?ea. k \<noteq> [] \<and> 0 \<notin> set k \<and> 0 \<notin> set v"
    and xb: "\<forall>(k, v)\<in>set ?eb. k \<noteq> [] \<and> 0 \<notin> set k \<and> 0 \<notin> set v"
    by (simp_all add: lit_def)
  have ja: "flat_loads (render ?t (workspace_name_of ?ea) (diamond_name_of ?ea)) \<noteq> None"
    and jb: "flat_loads (render ?t (workspace_name_of ?eb) (diamond_name_of ?eb)) = None"
    by (simp_all add: ev)
  have c1: "generate_devcontainer ascii_only flat_loads ''/d/t.json'' ''/d/o.json''
      (dict_set [] (lit ''DIAMOND_NAME'') (lit ''a\"b'')) ?w = Inl (SysExit 1, log RED InvalidJson ?w)"
    using A [THEN conjunct2, THEN conjunct1] bad by blast
  have c2: "files (final_world (generate_devcontainer ascii_only flat_loads ''/d/t.json'' ''/d/o.json''
      (dict_set [] (lit ''DIAMOND_NAME'') (lit ''My Diamond!'')) ?w)) ''/d/o.json''
     = Some (lit ''{\"service\":\"My Diamond!\"}'')"
    using B [THEN conjunct2, THEN conjunct2, THEN conjunct1] good r by simp
  have c3: "\<exists>w'. generate_devcontainer ascii_only flat_loads ''/d/t.json'' ''/d/o.json''
      (dict_set [] (lit ''DIAMOND_NAME'') (lit ''My Diamond!'')) ?w = Inr ((), w')"
    using B [THEN conjunct2, THEN conjunct2, THEN conjunct2, THEN conjunct1] good ok by blast
  have c4: "fst (script ascii_only flat_loads ''/d'' ?wa) = 0"
    using B [THEN conjunct2, THEN conjunct2, THEN conjunct2, THEN conjunct2, THEN mp,
        OF conjI [OF la conjI [OF va conjI [OF ra conjI [OF fa xa]]]]] ja by simp
  have c5: "fst (script ascii_only flat_loads ''/d'' ?wb) = 1"
    using A [THEN conjunct2, THEN conjunct2, THEN conjunct2, THEN conjunct2, THEN mp,
        OF conjI [OF lb conjI [OF vb conjI [OF rb conjI [OF fb xb]]]]] jb by simp
  from c1 c2 c3 c4 c5 show ?thesis by blast
qed


text \<open>
  Claim C4, as amended. Let the run reach the write (the environment file loaded, a valid
  workspace name, a readable template, a writable output path), let the text it writes
  parse as a JSON object that lacks one of the keys \<^verbatim>\<open>name\<close>, \<^verbatim>\<open>dockerComposeFile\<close>,
  \<^verbatim>\<open>service\<close>, \<^verbatim>\<open>workspaceFolder\<close>, and let every key and value of the mapping be one that
  \<^verbatim>\<open>os.environ\<close> accepts (no empty key, no character 0). Then the generation returns, the
  generated file parses as that object, the verification step returns false, and the
  program only warns: it prints the warning that names the first missing key and the
  warning that the configuration may have issues (both in yellow), then its closing lines,
  and it ends with exit status 0.
\<close>

theorem missing_key_is_warning_only:
  assumes "load_env_file (dir @ ''/.env'') (banner w) = Inr (env_vars, w1)"
    and "valid_workspace_name ucd (workspace_name_of env_vars)"
    and "read_text w1 (dir @ ''/devcontainer.template.json'') = Some template"
    and "\<not> faulty w1 (dir @ ''/devcontainer.json'')"
    and "\<forall>(k, v)\<in>set env_vars. k \<noteq> [] \<and> 0 \<notin> set k \<and> 0 \<notin> set v"
    and "json_loads (render template (workspace_name_of env_vars) (diamond_name_of env_vars))
           = Some (JObject kvs)"
    and "f \<in> set required_fields" and "f \<notin> fst ` set kvs"
  shows "\<exists>w3. generate_devcontainer ucd json_loads (dir @ ''/devcontainer.template.json'')
           (dir @ ''/devcontainer.json'') env_vars
           (log BLUE Generating (log NC Blank (log GREEN (Loaded (length env_vars)) w1)))
         = Inr ((), w3)
       \<and> load_json json_loads w3 (dir @ ''/devcontainer.json'') = Some (JObject kvs)
       \<and> fst (verify_generated_config json_loads (dir @ ''/devcontainer.json'')
                (log BLUE Verifying (log NC Blank w3))) = False
       \<and> fst (script ucd json_loads dir w) = 0
       \<and> (\<exists>g\<in>set required_fields. g \<notin> fst ` set kvs
            \<and> out (snd (script ucd json_loads dir w))
                = out w3 @ [(NC, Blank), (BLUE, Verifying), (YELLOW, MissingField g),
                            (YELLOW, ConfigMayHaveIssues), (NC, Blank), (GREEN, Rule),
                            (GREEN, Complete), (GREEN, Rule), (NC, Blank), (BLUE, WillStart),
                            (NC, Blank)])"
proof -
  let ?w2 = "log BLUE Generating (log NC Blank (log GREEN (Loaded (length env_vars)) w1))"
  let ?tp = "dir @ ''/devcontainer.template.json''"
  let ?op = "dir @ ''/devcontainer.json''"
  let ?text = "render template (workspace_name_of env_vars) (diamond_name_of env_vars)"
  from assms(5) load_env_file_keys [OF assms(1)]
  have ex: "\<forall>(k, v)\<in>set env_vars. k \<noteq> [] \<and> 61 \<notin> set k \<and> 0 \<notin> set k \<and> 0 \<notin> set v"
    by fastforce
  have rd: "read_text ?w2 ?tp = Some template" and nf: "\<not> faulty ?w2 ?op"
    using assms(3,4) by simp_all
  from generate_returns [where json_loads = json_loads and env_vars = env_vars,
      OF assms(2) rd assms(6) nf exportable_diamond_name [OF ex] ex]
  obtain w3 where g: "generate_devcontainer ucd json_loads ?tp ?op env_vars ?w2 = Inr ((), w3)"
    and f: "files w3 = (files ?w2)(?op \<mapsto> ?text)" and fa: "faulty w3 = faulty ?w2"
    by blast
  from rendered_text_no_cr [OF assms(1) rd] have "universal_newlines ?text = ?text"
    by (rule universal_newlines_id)
  with f fa nf assms(6) have lj: "load_json json_loads w3 ?op = Some (JObject kvs)"
    by (simp add: load_json_def read_text_def)
  let ?w = "log BLUE Verifying (log NC Blank w3)"
  have "\<exists>f\<in>set required_fields. f \<notin> fst ` set kvs" using assms(7,8) by blast
  from check_fields_object_missing [OF this, of ?w]
  obtain g' where g': "g' \<in> set required_fields" "g' \<notin> fst ` set kvs"
    and c: "check_fields (JObject kvs) required_fields ?w = (False, log YELLOW (MissingField g') ?w)"
    by blast
  have "load_json json_loads ?w ?op = Some (JObject kvs)"
    using lj by (simp add: load_json_def)
  with c have v: "verify_generated_config json_loads ?op ?w = (False, log YELLOW (MissingField g') ?w)"
    by (simp add: verify_generated_config_def)
  from main_after_generate [OF assms(1) g v]
  have "script ucd json_loads dir w =
           (0, log NC Blank (log BLUE WillStart (log NC Blank (log GREEN Rule
                 (log GREEN Complete (log GREEN Rule (log NC Blank
                    (log YELLOW ConfigMayHaveIssues (log YELLOW (MissingField g') ?w)))))))))"
    by simp
  with g lj v g' show ?thesis by auto
qed

theorem missing_key_is_warning_only_witness:
  "fst (script ascii_only flat_loads ''/d''
      (new_world [(''/d/.env'', lit ''WORKSPACE_NAME=demo'' @ [10]),
                  (''/d/devcontainer.template.json'',
                   lit ''{\"name\":\"__WORKSPACE_NAME__\",\"service\":\"__DIAMOND_NAME__\"}'')])) = 0
   \<and> (YELLOW, ConfigMayHaveIssues) \<in> set (out (snd (script ascii_only flat_loads ''/d''
      (new_world [(''/d/.env'', lit ''WORKSPACE_NAME=demo'' @ [10]),
                  (''/d/devcontainer.template.json'',
                   lit ''{\"name\":\"__WORKSPACE_NAME__\",\"service\":\"__DIAMOND_NAME__\"}'')]))))"
proof -
  let ?t = "lit ''{\"name\":\"__WORKSPACE_NAME__\",\"service\":\"__DIAMOND_NAME__\"}''"
  let ?w = "new_world [(''/d/.env'', lit ''WORKSPACE_NAME=demo'' @ [10]),
                  (''/d/devcontainer.template.json'', ?t)]"
  let ?env = "[(lit ''WORKSPACE_NAME'', lit ''demo'')]"
  let ?kvs = "[(lit ''name'', JString (lit ''demo'')), (lit ''service'', JString (lit ''ExampleDiamond''))]"
  have h1: "load_env_file (''/d'' @ ''/.env'') (banner ?w) = Inr (?env, banner ?w)"
    by (simp add: run_defs)
  have v: "valid_workspace_name ascii_only (workspace_name_of ?env)"
    by (simp add: workspace_name_of_def dict_get_def valid_workspace_name_iff isalnum_char_def lit_def)
  have rd: "read_text (banner ?w) (''/d'' @ ''/devcontainer.template.json'') = Some ?t"
    by (simp add: run_defs)
  have nf: "\<not> faulty (banner ?w) (''/d'' @ ''/devcontainer.json'')" by (simp add: run_defs)
  have ok: "\<forall>(k, v)\<in>set ?env. k \<noteq> [] \<and> 0 \<notin> set k \<and> 0 \<notin> set v"
    by (simp add: lit_def)
  have js: "flat_loads (render ?t (workspace_name_of ?env) (diamond_name_of ?env)) = Some (JObject ?kvs)"
    by (simp add: render_def py_replace_def WORKSPACE_TOKEN_def DIAMOND_TOKEN_def flat_loads_def
        workspace_name_of_def diamond_name_of_def dict_get_def lit_def)
  have m1: "lit ''dockerComposeFile'' \<in> set required_fields" by (simp add: required_fields_def)
  have m2: "lit ''dockerComposeFile'' \<notin> fst ` set ?kvs" by (simp add: lit_def)
  from missing_key_is_warning_only [where json_loads = flat_loads, OF h1 v rd nf ok js m1 m2]
  show ?thesis by auto
qed

section \<open>Rendering a template\<close>

lemma tokens_explicit:
  "WORKSPACE_TOKEN = [95, 95, 87, 79, 82, 75, 83, 80, 65, 67, 69, 95, 78, 65, 77, 69, 95, 95]"
  "DIAMOND_TOKEN = [95, 95, 68, 73, 65, 77, 79, 78, 68, 95, 78, 65, 77, 69, 95, 95]"
  by (simp_all add: WORKSPACE_TOKEN_def DIAMOND_TOKEN_def lit_def)

lemma token_of_nonempty: "token_of p \<noteq> []"
  by (cases p) (simp_all add: tokens_explicit)

lemma replace_scan_hit:
  assumes "old \<noteq> []"
  shows "replace_scan old new (old @ rest) = new @ replace_scan old new rest"
  using assms by (cases old) simp_all

text \<open>A text in which the token does not occur is left as it is.\<close>

lemma replace_scan_id:
  assumes "\<not> sublist old s"
  shows "replace_scan old new s = s"
  using assms
proof (induction s)
  case Nil
  show ?case by simp
next
  case (Cons c cs)
  from Cons.prems have "\<not> prefix old (c # cs)" and "\<not> sublist old cs"
    by (auto simp: sublist_Cons_right)
  with Cons.IH show ?case by simp
qed

text \<open>The scan passes a stretch in which the token does not begin, and replaces the token
  that stands behind it.\<close>

lemma replace_scan_stretch:
  assumes "old \<noteq> []" and "\<not> sublist old (a @ butlast old)"
  shows "replace_scan old new (a @ old @ rest) = a @ new @ replace_scan old new rest"
  using assms(2)
proof (induction a)
  case Nil
  show ?case using replace_scan_hit [OF assms(1)] by simp
next
  case (Cons x a)
  from Cons.prems have tail: "\<not> sublist old (a @ butlast old)"
    by (simp add: sublist_Cons_right)
  have "\<not> prefix old (x # a @ old @ rest)"
  proof
    assume p: "prefix old (x # a @ old @ rest)"
    have q: "prefix ((x # a) @ butlast old) (x # a @ old @ rest)"
    proof -
      have "prefix (butlast old) (old @ rest)"
        by (simp add: prefixeq_butlast prefix_prefix)
      then show ?thesis by simp
    qed
    have "length old \<le> length ((x # a) @ butlast old)" by simp
    from prefix_length_prefix [OF p q this] have "prefix old ((x # a) @ butlast old)" .
    then have "sublist old ((x # a) @ butlast old)" by (rule prefix_imp_sublist)
    with Cons.prems show False by simp
  qed
  with Cons.IH [OF tail] show ?case by simp
qed

lemma assemble_prepend: "assemble f (x @ c) segs = x @ assemble f c segs"
  by (cases segs) auto

lemma runs_nonempty: "runs p f c segs \<noteq> []"
  by (cases segs) (auto split: if_splits)

lemma runs_prepend:
  "runs p f (x @ c) segs = (x @ hd (runs p f c segs)) # tl (runs p f c segs)"
  by (cases segs) auto

lemma assemble_other_value:
  "assemble (f(p := v)) c0 segs = assemble (\<lambda>q. if q = p then v else f q) c0 segs"
  by (rule arg_cong [where f = "\<lambda>g. assemble g c0 segs"]) auto

text \<open>One pass of \<^verbatim>\<open>replace\<close>: when the token stands only at its places, the pass puts the
  value at exactly these places.\<close>

lemma replace_pass:
  assumes "f p = token_of p" and "stands_only_at_its_places p f c0 segs"
  shows "replace_scan (token_of p) v (assemble f c0 segs) = assemble (f(p := v)) c0 segs"
  using assms(2)
proof (induction segs arbitrary: c0)
  case Nil
  then have "\<not> sublist (token_of p) c0" by (simp add: stands_only_at_its_places_def)
  then show ?case by (simp add: replace_scan_id)
next
  case (Cons qc segs)
  obtain q c where qc: "qc = (q, c)" by (cases qc)
  show ?case
  proof (cases "q = p")
    case True
    from Cons.prems qc True runs_nonempty [of p f c segs]
    have here: "\<not> sublist (token_of p) (c0 @ butlast (token_of p))"
      and rest: "stands_only_at_its_places p f c segs"
      by (simp_all add: stands_only_at_its_places_def)
    from replace_scan_stretch [OF token_of_nonempty here, of v "assemble f c segs"]
      Cons.IH [OF rest] qc True assms(1)
    show ?thesis by simp
  next
    case False
    from Cons.prems qc False runs_prepend [of p f "c0 @ f q" c segs]
    have "stands_only_at_its_places p f (c0 @ f q @ c) segs"
      by (simp add: stands_only_at_its_places_def)
    from Cons.IH [OF this] qc False
    show ?thesis by (simp add: assemble_prepend)
  qed
qed


lemma values_after_first_pass: "token_of(WorkspaceName := w) = value_of w DIAMOND_TOKEN"
proof
  fix q show "(token_of(WorkspaceName := w)) q = value_of w DIAMOND_TOKEN q" by (cases q) simp_all
qed

lemma values_after_second_pass: "(value_of w DIAMOND_TOKEN)(DiamondName := d) = value_of w d"
proof
  fix q show "((value_of w DIAMOND_TOKEN)(DiamondName := d)) q = value_of w d q" by (cases q) simp_all
qed

text \<open>
  Claim C1, as amended. Take a template made of text pieces with a placeholder token between
  each two, and two values, such that
  \<^item> in the template the workspace token stands only at its places,
  \<^item> in the text with the workspace value in place the diamond token stands only at its
    places (the workspace value neither holds a diamond token nor completes one), and
  \<^item> the text with both values in place holds neither token (no value holds a token or
    completes one with the text around it).
  Then the render step (replace every workspace token, then every diamond token) yields
  exactly the text with both values in place of their tokens, and that text holds no
  occurrence of either token.
\<close>

theorem render_replaces_tokens:
  assumes "stands_only_at_its_places WorkspaceName token_of c0 segs"
    and "stands_only_at_its_places DiamondName (value_of workspace_name DIAMOND_TOKEN) c0 segs"
    and "\<not> py_contains (assemble (value_of workspace_name diamond_name) c0 segs) WORKSPACE_TOKEN"
    and "\<not> py_contains (assemble (value_of workspace_name diamond_name) c0 segs) DIAMOND_TOKEN"
  shows "render (assemble token_of c0 segs) workspace_name diamond_name
           = assemble (value_of workspace_name diamond_name) c0 segs
       \<and> \<not> py_contains (render (assemble token_of c0 segs) workspace_name diamond_name) WORKSPACE_TOKEN
       \<and> \<not> py_contains (render (assemble token_of c0 segs) workspace_name diamond_name) DIAMOND_TOKEN"
proof -
  have ne: "WORKSPACE_TOKEN \<noteq> []" "DIAMOND_TOKEN \<noteq> []" by (simp_all add: tokens_explicit)
  have "render (assemble token_of c0 segs) workspace_name diamond_name
        = replace_scan DIAMOND_TOKEN diamond_name
            (replace_scan WORKSPACE_TOKEN workspace_name (assemble token_of c0 segs))"
    using ne by (simp add: render_def py_replace_def)
  also have "replace_scan WORKSPACE_TOKEN workspace_name (assemble token_of c0 segs)
             = assemble (value_of workspace_name DIAMOND_TOKEN) c0 segs"
    using replace_pass [of token_of WorkspaceName c0 segs workspace_name, OF _ assms(1)]
    by (simp add: values_after_first_pass)
  also have "replace_scan DIAMOND_TOKEN diamond_name (assemble (value_of workspace_name DIAMOND_TOKEN) c0 segs)
             = assemble (value_of workspace_name diamond_name) c0 segs"
    using replace_pass [of "value_of workspace_name DIAMOND_TOKEN" DiamondName c0 segs diamond_name,
        OF _ assms(2)]
    by (simp add: values_after_second_pass)
  finally have r: "render (assemble token_of c0 segs) workspace_name diamond_name
        = assemble (value_of workspace_name diamond_name) c0 segs" .
  with assms(3,4) show ?thesis by simp
qed

theorem render_replaces_tokens_witness:
  "render (lit ''{\"name\":\"__WORKSPACE_NAME___dev\",\"note\":\"__comment\",\"service\":\"__DIAMOND_NAME__\"}'')
      (lit ''a__b_'') (lit ''_app'')
     = lit ''{\"name\":\"a__b__dev\",\"note\":\"__comment\",\"service\":\"_app\"}''
   \<and> \<not> py_contains (render
        (lit ''{\"name\":\"__WORKSPACE_NAME___dev\",\"note\":\"__comment\",\"service\":\"__DIAMOND_NAME__\"}'')
        (lit ''a__b_'') (lit ''_app'')) WORKSPACE_TOKEN
   \<and> \<not> py_contains (render
        (lit ''{\"name\":\"__WORKSPACE_NAME___dev\",\"note\":\"__comment\",\"service\":\"__DIAMOND_NAME__\"}'')
        (lit ''a__b_'') (lit ''_app'')) DIAMOND_TOKEN"
proof -
  let ?c0 = "lit ''{\"name\":\"''"
  let ?segs = "[(WorkspaceName, lit ''_dev\",\"note\":\"__comment\",\"service\":\"''),
                (DiamondName, lit ''\"}'')]"
  note ev = stands_only_at_its_places_def py_contains_def tokens_explicit lit_def sublist_Cons_right
  have a: "stands_only_at_its_places WorkspaceName token_of ?c0 ?segs"
    by (simp add: ev)
  have b: "stands_only_at_its_places DiamondName (value_of (lit ''a__b_'') DIAMOND_TOKEN) ?c0 ?segs"
    by (simp add: ev)
  have c: "\<not> py_contains (assemble (value_of (lit ''a__b_'') (lit ''_app'')) ?c0 ?segs) WORKSPACE_TOKEN"
    by (simp add: ev)
  have d: "\<not> py_contains (assemble (value_of (lit ''a__b_'') (lit ''_app'')) ?c0 ?segs) DIAMOND_TOKEN"
    by (simp add: ev)
  have t: "assemble token_of ?c0 ?segs
     = lit ''{\"name\":\"__WORKSPACE_NAME___dev\",\"note\":\"__comment\",\"service\":\"__DIAMOND_NAME__\"}''"
    by (simp add: tokens_explicit lit_def)
  have v: "assemble (value_of (lit ''a__b_'') (lit ''_app'')) ?c0 ?segs
     = lit ''{\"name\":\"a__b__dev\",\"note\":\"__comment\",\"service\":\"_app\"}''"
    by (simp add: lit_def)
  from render_replaces_tokens [OF a b c d] show ?thesis unfolding t v .
qed

theorem token_in_value_survives:
  "py_contains (lit ''{\"name\":\"__WORKSPACE_NAME__\",\"service\":\"__DIAMOND_NAME__\"}'') WORKSPACE_TOKEN
   \<and> py_contains (lit ''{\"name\":\"__WORKSPACE_NAME__\",\"service\":\"__DIAMOND_NAME__\"}'') DIAMOND_TOKEN
   \<and> render (lit ''{\"name\":\"__WORKSPACE_NAME__\",\"service\":\"__DIAMOND_NAME__\"}'')
        (lit ''demo'') (lit ''__WORKSPACE_NAME__'')
       = lit ''{\"name\":\"demo\",\"service\":\"__WORKSPACE_NAME__\"}''
   \<and> py_contains (render (lit ''{\"name\":\"__WORKSPACE_NAME__\",\"service\":\"__DIAMOND_NAME__\"}'')
        (lit ''demo'') (lit ''__WORKSPACE_NAME__'')) WORKSPACE_TOKEN"
  by (simp add: render_def py_replace_def py_contains_def WORKSPACE_TOKEN_def DIAMOND_TOKEN_def
        lit_def sublist_Cons_right)

text \<open>
  Why the first two conditions on a rendered template are there. In the template
  \<^verbatim>\<open>__DIAMOND_NAME__WORKSPACE_NAME__DIAMOND_NAME__\<close> the workspace token does not stand only
  at a place of its own: the scan meets it between the two diamond tokens, takes the last two
  underscores of the first and the first two of the second, and no diamond token is left for
  the second pass. And a workspace value that is itself the diamond token is replaced by the
  second pass: the diamond value stands where the workspace value should.
\<close>

lemma overlapping_tokens_are_lost:
  "render (lit ''__DIAMOND_NAME__WORKSPACE_NAME__DIAMOND_NAME__'') (lit ''x'') (lit ''y'')
     = lit ''__DIAMOND_NAMExDIAMOND_NAME__''"
  by (simp add: render_def py_replace_def WORKSPACE_TOKEN_def DIAMOND_TOKEN_def lit_def)

lemma token_as_workspace_value_is_replaced:
  "valid_workspace_name ucd (lit ''__DIAMOND_NAME__'')
   \<and> render (lit ''{\"name\":\"__WORKSPACE_NAME__\"}'') (lit ''__DIAMOND_NAME__'') (lit ''y'')
       = lit ''{\"name\":\"y\"}''"
  by (simp add: render_def py_replace_def WORKSPACE_TOKEN_def DIAMOND_TOKEN_def lit_def
        valid_workspace_name_iff isalnum_char_def)

end
